theory Spec2Isabelle
  imports Complex_Main "HOL-Library.Char_ord" "HOL-Library.List_Lexorder"
    "HOL-Library.AList" "HOL-Library.Signed_Division"
begin

section \<open>Data model\<close>

text \<open>
  Go's \<^verbatim>\<open>float64\<close> is modelled by the rationals: every finite float64 is a
  rational, and the code under study only compares such a value with zero,
  copies it, or truncates it to an integer. NaN, the infinities and rounding
  are not modelled. \<^verbatim>\<open>time.Time\<close> is modelled as milliseconds since the epoch.
\<close>

type_synonym float64 = rat
type_synonym time = int

text \<open>
  A \<^verbatim>\<open>json.RawMessage\<close> holds the undecoded text of one JSON value. The model
  keeps the shape of that value, and for a number its text as it stands in
  the message (\<^verbatim>\<open>25\<close>, \<^verbatim>\<open>3200.0\<close>, \<^verbatim>\<open>1e400\<close>); \<open>None\<close> stands for raw bytes
  that are no JSON value at all (in particular the empty message of an absent
  field).
\<close>

datatype json =
    JNull
  | JBool bool
  | JNumber string
  | JString string
  | JArray "json list"
  | JObject "(string \<times> json) list"

type_synonym RawMessage = "json option"

subsection \<open>broker/errors.go\<close>

text \<open>
  Go's \<^verbatim>\<open>error\<close> values that the client can return: the sentinel
  \<^verbatim>\<open>ErrPositionNotFound\<close>, an error of a library call (tagged with the library's
  name), the two \<^verbatim>\<open>fmt.Errorf\<close> shapes used by the code, and \<^verbatim>\<open>*BrokerError\<close>
  with its fields Broker, Code, Message and Err (\<open>None\<close> is \<^verbatim>\<open>nil\<close>).
\<close>

datatype error =
    ErrPositionNotFound
  | LibError string
  | Errorf string RawMessage
  | Wrapf string error
  | BrokerError string string string "error option"

text \<open>
  The method \<^verbatim>\<open>Error\<close>. The text of a raw message is not part of the model, so
  the message of the decoders' error is rendered by its fixed part only.
\<close>

fun Error :: "error \<Rightarrow> string" where
  "Error ErrPositionNotFound = ''position not found''"
| "Error (LibError msg) = msg"
| "Error (Errorf msg raw) = msg"
| "Error (Wrapf msg err) = msg @ Error err"
| "Error (BrokerError broker code message err) =
     broker @ '' error ['' @ code @ '']: '' @ message"

definition NewBrokerError :: "string \<Rightarrow> string \<Rightarrow> string \<Rightarrow> error option \<Rightarrow> error" where
  "NewBrokerError broker code message err = BrokerError broker code message err"

subsection \<open>broker/types.go\<close>

type_synonym Side = string
type_synonym OrderType = string
type_synonym OrderStatus = string
type_synonym TimeInForce = string
type_synonym WorkingType = string

definition SideLong :: Side where "SideLong = ''LONG''"
definition SideShort :: Side where "SideShort = ''SHORT''"
definition OrderTypeLimit :: OrderType where "OrderTypeLimit = ''LIMIT''"

record Balance =
  Asset :: string
  Total :: float64
  Available :: float64
  InUse :: float64
  UnrealizedPnL :: float64
  RealizedPnL :: float64
  Timestamp :: time

record Position =
  Symbol :: string
  Side :: Side
  Size :: float64
  EntryPrice :: float64
  MarkPrice :: float64
  LiquidationPrice :: float64
  Leverage :: int
  UnrealizedPnL :: float64
  RealizedPnL :: float64
  Margin :: float64
  MaintenanceMargin :: float64
  Timestamp :: time

record Order =
  ID :: string
  ClientOrderID :: string
  Symbol :: string
  Side :: Side
  Type :: OrderType
  Status :: OrderStatus
  Size :: float64
  Price :: float64
  StopPrice :: float64
  FilledSize :: float64
  AveragePrice :: float64
  ReduceOnly :: bool
  TimeInForce :: TimeInForce
  CreatedAt :: time
  UpdatedAt :: time

record StopLossConfig =
  TriggerPrice :: float64
  OrderPrice :: float64
  WorkingType :: WorkingType

record TakeProfitConfig =
  TriggerPrice :: float64
  OrderPrice :: float64
  WorkingType :: WorkingType

record TrailingConfig =
  ActivationPrice :: float64
  CallbackRate :: float64

record OrderRequest =
  Symbol :: string
  Side :: Side
  Type :: OrderType
  Size :: float64
  Price :: float64
  StopPrice :: float64
  TimeInForce :: TimeInForce
  ReduceOnly :: bool
  StopLoss :: "StopLossConfig option"
  TakeProfit :: "TakeProfitConfig option"
  Trailing :: "TrailingConfig option"

text \<open>The filters are passed by pointer; \<open>None\<close> is the nil pointer.\<close>

record PositionFilter =
  Symbol :: string
  Side :: "Side option"

record OrderFilter =
  Symbol :: string
  Side :: "OrderStatus option"
  Status :: "OrderStatus option"

subsection \<open>bingx/types.go\<close>

record BalanceData =
  UserId :: string
  Asset :: string
  Balance :: string
  Equity :: string
  UnrealizedProfit :: string
  RealisedProfit :: string
  AvailableMargin :: string
  UsedMargin :: string
  FreezedMargin :: string
  ShortUid :: string

record BalanceResponse =
  Code :: int
  Data :: "BalanceData list"
  Msg :: string

record PositionData =
  Symbol :: string
  PositionSide :: string
  PositionAmt :: string
  AvailableAmt :: string
  UnrealizedProfit :: string
  RealisedProfit :: string
  InitialMargin :: string
  MaintenanceMargin :: string
  PositionValue :: string
  Leverage :: RawMessage
  IsolatedMargin :: string
  AvgPrice :: string
  MaxNotionalValue :: string
  BidNotional :: string
  AskNotional :: string
  LiquidationPrice :: RawMessage
  MarkPrice :: string

record PositionsResponse =
  Code :: int
  Data :: "PositionData list"
  Msg :: string

record OrderResponseData =
  OrderId :: int
  Symbol :: string
  Side :: string
  PositionSide :: string
  Type :: string
  Quantity :: string
  Price :: string
  Status :: string

record OrderResponse =
  Code :: int
  Data :: OrderResponseData
  Msg :: string

record OpenOrderData =
  OrderId :: int
  Symbol :: string
  Side :: string
  PositionSide :: string
  Type :: string
  Quantity :: string
  Price :: string
  StopPrice :: string
  ExecutedQty :: string
  AvgPrice :: string
  Status :: string
  TimeInForce :: string
  ClientOrderID :: string
  WorkingType :: string
  Time :: int
  UpdateTime :: int

record OpenOrdersData =
  Orders :: "OpenOrderData list"

record OpenOrdersResponse =
  Code :: int
  Data :: OpenOrdersData
  Msg :: string

subsection \<open>bingx/constants.go\<close>

definition EndpointBalance :: string where "EndpointBalance = ''/openApi/swap/v3/user/balance''"
definition EndpointPositions :: string where "EndpointPositions = ''/openApi/swap/v2/user/positions''"
definition EndpointPlaceOrder :: string where "EndpointPlaceOrder = ''/openApi/swap/v2/trade/order''"
definition EndpointOpenOrders :: string where "EndpointOpenOrders = ''/openApi/swap/v2/trade/openOrders''"
definition APISuccessCode :: int where "APISuccessCode = 0"

section \<open>The Go library and the outside world\<close>

text \<open>
  What one HTTP round trip can produce, as \<^verbatim>\<open>makeRequest\<close> tells the cases apart:
  the request could not be built, the transport failed, the body could not be
  read, or a response arrived with a status code and a body.
\<close>

datatype http_outcome =
    NewRequestFailed error
  | DoFailed error
  | ReadFailed error
  | Response int string

text \<open>
  The library functions and the environment the client calls are parameters
  of the model, collected in one record: \<^verbatim>\<open>strconv.ParseFloat\<close> (returning, like
  Go, a value together with an optional error), \<^verbatim>\<open>fmt.Sprintf\<close> with the verbs
  \<^verbatim>\<open>%.8f\<close> and \<^verbatim>\<open>%g\<close>, HMAC-SHA256 (key, then message, giving the raw
  digest), the clock, the HTTP transport (method, URL, headers), and
  \<^verbatim>\<open>json.Unmarshal\<close> into each of the response structs.
  \<^verbatim>\<open>makeRequestWithPayload\<close> is a method of the client whose body is not part of
  the sources at hand, so it is a parameter as well (method, endpoint,
  parameters).
\<close>

record lib =
  ParseFloat :: "string \<Rightarrow> float64 \<times> error option"
  Sprintf_8f :: "float64 \<Rightarrow> string"
  Sprintf_g :: "float64 \<Rightarrow> string"
  HmacSha256 :: "string \<Rightarrow> string \<Rightarrow> string"
  Now :: time
  Do :: "string \<Rightarrow> string \<Rightarrow> (string \<times> string) list \<Rightarrow> http_outcome"
  UnmarshalBalanceResponse :: "string \<Rightarrow> error + BalanceResponse"
  UnmarshalPositionsResponse :: "string \<Rightarrow> error + PositionsResponse"
  UnmarshalOrderResponse :: "string \<Rightarrow> error + OrderResponse"
  UnmarshalOpenOrdersResponse :: "string \<Rightarrow> error + OpenOrdersResponse"
  makeRequestWithPayload :: "string \<Rightarrow> string \<Rightarrow> (string \<times> string) list \<Rightarrow> error + string"

text \<open>
  \<^verbatim>\<open>json.Unmarshal\<close> of a raw message into a \<^verbatim>\<open>string\<close> variable and into a
  \<^verbatim>\<open>float64\<close> variable. A JSON string decodes into the former. A JSON number
  decodes into the latter through \<^verbatim>\<open>strconv.ParseFloat\<close> applied to the text of
  the number, and the decoding fails when that call reports an error, which
  it does for a number outside the range of float64 such as \<^verbatim>\<open>1e400\<close>. The JSON
  value \<^verbatim>\<open>null\<close> decodes into either without an error and leaves the variable
  at its zero value. Every other combination is an error (\<open>None\<close>).
\<close>

fun unmarshalString :: "RawMessage \<Rightarrow> string option" where
  "unmarshalString (Some (JString s)) = Some s"
| "unmarshalString (Some JNull) = Some []"
| "unmarshalString _ = None"

fun unmarshalFloat64 :: "lib \<Rightarrow> RawMessage \<Rightarrow> float64 option" where
  "unmarshalFloat64 L (Some (JNumber item)) =
     (case ParseFloat L item of
        (n, None) \<Rightarrow> Some n
      | (n, Some err) \<Rightarrow> None)"
| "unmarshalFloat64 L (Some JNull) = Some 0"
| "unmarshalFloat64 L _ = None"

section \<open>bingx/types.go: the string-or-number decoders\<close>

definition GetLeverageFloat :: "lib \<Rightarrow> PositionData \<Rightarrow> float64 \<times> error option" where
  "GetLeverageFloat L p =
     (case unmarshalString (PositionData.Leverage p) of
        Some leverageStr \<Rightarrow> ParseFloat L leverageStr
      | None \<Rightarrow>
          (case unmarshalFloat64 L (PositionData.Leverage p) of
             Some leverageFloat \<Rightarrow> (leverageFloat, None)
           | None \<Rightarrow> (0, Some (Errorf ''unable to parse leverage: '' (PositionData.Leverage p)))))"

definition GetLiquidationPriceFloat :: "lib \<Rightarrow> PositionData \<Rightarrow> float64 \<times> error option" where
  "GetLiquidationPriceFloat L p =
     (case unmarshalString (PositionData.LiquidationPrice p) of
        Some priceStr \<Rightarrow> if priceStr = [] then (0, None) else ParseFloat L priceStr
      | None \<Rightarrow>
          (case unmarshalFloat64 L (PositionData.LiquidationPrice p) of
             Some priceFloat \<Rightarrow> (priceFloat, None)
           | None \<Rightarrow>
               (0, Some (Errorf ''unable to parse liquidation price: ''
                           (PositionData.LiquidationPrice p)))))"

section \<open>bingx/orders.go: status and reduce-only mapping\<close>

definition triggerTypes :: "(string \<times> bool) list" where
  "triggerTypes =
     [(''STOP'', True), (''STOP_MARKET'', True), (''TAKE_PROFIT'', True),
      (''TAKE_PROFIT_MARKET'', True)]"

text \<open>Indexing a Go map of booleans with a missing key gives \<^verbatim>\<open>false\<close>.\<close>

definition mapBingXStatus :: "string \<Rightarrow> string \<Rightarrow> OrderStatus" where
  "mapBingXStatus bingxStatus orderType =
     (if (case map_of triggerTypes orderType of Some b \<Rightarrow> b | None \<Rightarrow> False)
         \<and> bingxStatus = ''NEW''
      then ''PENDING''
      else bingxStatus)"

definition isReduceOnly :: "string \<Rightarrow> string \<Rightarrow> bool" where
  "isReduceOnly side positionSide \<longleftrightarrow>
     (side = ''SELL'' \<and> positionSide = ''LONG'') \<or>
     (side = ''BUY'' \<and> positionSide = ''SHORT'')"

section \<open>Formatting and encoding helpers of the standard library\<close>

text \<open>Decimal rendering of an integer: \<^verbatim>\<open>strconv.FormatInt(n, 10)\<close> and the verb \<^verbatim>\<open>%d\<close>.\<close>

definition digitChar :: "nat \<Rightarrow> char" where
  "digitChar n = ''0123456789'' ! n"

fun natDigits :: "nat \<Rightarrow> string" where
  "natDigits n = (if n < 10 then [digitChar n] else natDigits (n div 10) @ [digitChar (n mod 10)])"

declare natDigits.simps [simp del]

definition itoa :: "int \<Rightarrow> string" where
  "itoa i = (if i < 0 then CHR ''-'' # natDigits (nat (- i)) else natDigits (nat i))"

text \<open>\<^verbatim>\<open>hex.EncodeToString\<close>: two lowercase hexadecimal digits per byte.\<close>

definition hextable :: string where "hextable = ''0123456789abcdef''"

definition hexEncodeByte :: "char \<Rightarrow> string" where
  "hexEncodeByte c = [hextable ! (of_char c div 16), hextable ! (of_char c mod 16)]"

definition EncodeToString :: "string \<Rightarrow> string" where
  "EncodeToString src = concat (map hexEncodeByte src)"

text \<open>
  \<^verbatim>\<open>url.QueryEscape\<close>: letters, digits and \<^verbatim>\<open>- _ . ~\<close> are kept, a space becomes
  \<^verbatim>\<open>+\<close>, every other byte becomes \<^verbatim>\<open>%\<close> followed by two uppercase hexadecimal
  digits.
\<close>

definition upperhex :: string where "upperhex = ''0123456789ABCDEF''"

definition shouldEscape :: "char \<Rightarrow> bool" where
  "shouldEscape c \<longleftrightarrow>
     \<not> ((CHR ''a'' \<le> c \<and> c \<le> CHR ''z'') \<or> (CHR ''A'' \<le> c \<and> c \<le> CHR ''Z'') \<or>
        (CHR ''0'' \<le> c \<and> c \<le> CHR ''9'') \<or>
        c = CHR ''-'' \<or> c = CHR ''_'' \<or> c = CHR ''.'' \<or> c = CHR ''~'')"

definition escapeByte :: "char \<Rightarrow> string" where
  "escapeByte c =
     (if shouldEscape c
      then (if c = CHR '' '' then ''+''
            else [CHR ''%'', upperhex ! (of_char c div 16), upperhex ! (of_char c mod 16)])
      else [c])"

definition QueryEscape :: "string \<Rightarrow> string" where
  "QueryEscape s = concat (map escapeByte s)"

text \<open>
  \<^verbatim>\<open>url.Values\<close> is a map from keys to lists of values, here an association
  list with distinct keys. \<^verbatim>\<open>Set\<close> replaces the values of a key by one value.
  \<^verbatim>\<open>Encode\<close> sorts the keys and writes \<^verbatim>\<open>key=value\<close> for every value, with
  \<^verbatim>\<open>&\<close> in front of each pair but the first one written.
\<close>

type_synonym Values = "(string \<times> string list) list"

definition Set :: "Values \<Rightarrow> string \<Rightarrow> string \<Rightarrow> Values" where
  "Set v key val = AList.update key [val] v"

definition writePair :: "string \<Rightarrow> string \<Rightarrow> string \<Rightarrow> string" where
  "writePair keyEscaped buf v =
     (if length buf > 0 then buf @ ''&'' else buf) @ keyEscaped @ ''='' @ QueryEscape v"

definition Encode :: "Values \<Rightarrow> string" where
  "Encode v =
     (if length v = 0 then []
      else foldl (\<lambda>buf k. foldl (writePair (QueryEscape k)) buf
                             (case map_of v k of Some vs \<Rightarrow> vs | None \<Rightarrow> []))
             [] (sort (map fst v)))"

section \<open>bingx/client.go\<close>

record Client =
  apiKey :: string
  secretKey :: string
  baseURL :: string

definition sign :: "lib \<Rightarrow> Client \<Rightarrow> string \<Rightarrow> string" where
  "sign L c params = EncodeToString (HmacSha256 L (secretKey c) params)"

text \<open>
  A Go map of request parameters is an association list with distinct keys;
  the order of the list is the order in which \<^verbatim>\<open>range\<close> happens to visit the
  entries. \<^verbatim>\<open>makeRequest\<close> first stores the timestamp (\<open>withTimestamp\<close>), then
  copies the entries into a \<^verbatim>\<open>url.Values\<close> and encodes them (\<open>canonicalQuery\<close>,
  the string that is signed); \<open>fullURLOf\<close> is the URL it calls.
\<close>

type_synonym params = "(string \<times> string) list"

definition withTimestamp :: "lib \<Rightarrow> params \<Rightarrow> params" where
  "withTimestamp L params =
     (let timestamp = Now L in AList.update ''timestamp'' (itoa timestamp) params)"

definition canonicalQuery :: "params \<Rightarrow> string" where
  "canonicalQuery params =
     (let values = foldl (\<lambda>values (key, val). Set values key val) [] params
      in Encode values)"

definition fullURLOf :: "lib \<Rightarrow> Client \<Rightarrow> string \<Rightarrow> params \<Rightarrow> string" where
  "fullURLOf L c endpoint params =
     (let params = withTimestamp L params;
          queryString = canonicalQuery params;
          signature = sign L c queryString
      in baseURL c @ endpoint @ ''?'' @ queryString @ ''&signature='' @ signature)"

definition makeRequest :: "lib \<Rightarrow> Client \<Rightarrow> string \<Rightarrow> string \<Rightarrow> params \<Rightarrow> error + string" where
  "makeRequest L c method endpoint params =
     (case Do L method (fullURLOf L c endpoint params)
             [(''X-BX-APIKEY'', apiKey c), (''Content-Type'', ''application/json'')] of
        NewRequestFailed err \<Rightarrow> Inl (Wrapf ''failed to create request: '' err)
      | DoFailed err \<Rightarrow>
          Inl (NewBrokerError ''bingx'' ''REQUEST_FAILED'' ''HTTP request failed'' (Some err))
      | ReadFailed err \<Rightarrow>
          Inl (NewBrokerError ''bingx'' ''READ_FAILED'' ''Failed to read response'' (Some err))
      | Response statusCode body \<Rightarrow>
          if statusCode \<noteq> 200
          then Inl (NewBrokerError ''bingx'' ''HTTP_ERROR''
                      (''HTTP '' @ itoa statusCode @ '': '' @ body) None)
          else Inr body)"

section \<open>bingx/account.go\<close>

definition GetBalance :: "lib \<Rightarrow> Client \<Rightarrow> error + Balance" where
  "GetBalance L c =
     (case makeRequest L c ''GET'' EndpointBalance [] of
        Inl err \<Rightarrow> Inl err
      | Inr body \<Rightarrow>
          (case UnmarshalBalanceResponse L body of
             Inl err \<Rightarrow>
               Inl (NewBrokerError ''bingx'' ''PARSE_ERROR'' ''Failed to parse balance response''
                      (Some err))
           | Inr response \<Rightarrow>
               if BalanceResponse.Code response \<noteq> APISuccessCode
               then Inl (NewBrokerError ''bingx'' (''API_'' @ itoa (BalanceResponse.Code response))
                           (BalanceResponse.Msg response) None)
               else if length (BalanceResponse.Data response) = 0
               then Inl (NewBrokerError ''bingx'' ''NO_DATA'' ''No balance data returned'' None)
               else
                 (let data = BalanceResponse.Data response ! 0;
                      total = fst (ParseFloat L (Equity data));
                      available = fst (ParseFloat L (AvailableMargin data));
                      inUse = fst (ParseFloat L (UsedMargin data));
                      unrealizedPnL = fst (ParseFloat L (BalanceData.UnrealizedProfit data));
                      realizedPnL = fst (ParseFloat L (BalanceData.RealisedProfit data))
                  in Inr \<lparr> Balance.Asset = BalanceData.Asset data,
                           Total = total,
                           Available = available,
                           InUse = inUse,
                           Balance.UnrealizedPnL = unrealizedPnL,
                           Balance.RealizedPnL = realizedPnL,
                           Balance.Timestamp = Now L \<rparr>)))"

section \<open>bingx/positions.go\<close>

text \<open>
  Go's conversion \<^verbatim>\<open>int(x)\<close> of a float truncates towards zero. The result for
  a value outside the range of \<^verbatim>\<open>int\<close> depends on the platform and is not
  modelled: \<open>truncInt\<close> is the mathematical truncation.
\<close>

definition truncInt :: "float64 \<Rightarrow> int" where
  "truncInt x = (if 0 \<le> x then \<lfloor>x\<rfloor> else \<lceil>x\<rceil>)"

text \<open>
  One turn of the loop of \<^verbatim>\<open>GetPositions\<close>: \<open>None\<close> when the turn ends in
  \<^verbatim>\<open>continue\<close>, otherwise the position that is appended.
\<close>

definition positionOf :: "lib \<Rightarrow> PositionFilter option \<Rightarrow> PositionData \<Rightarrow> Position option" where
  "positionOf L filter' pos =
     (let size = fst (ParseFloat L (PositionAmt pos)) in
      if size = 0 then None
      else
        (let side = (if PositionData.PositionSide pos = ''LONG'' then SideLong else SideShort) in
         if (case filter' of
               None \<Rightarrow> False
             | Some f \<Rightarrow> (case PositionFilter.Side f of None \<Rightarrow> False | Some s \<Rightarrow> s \<noteq> side))
         then None
         else
           (let entryPrice = fst (ParseFloat L (PositionData.AvgPrice pos));
                markPrice = fst (ParseFloat L (PositionData.MarkPrice pos));
                unrealizedPnL = fst (ParseFloat L (PositionData.UnrealizedProfit pos));
                realizedPnL = fst (ParseFloat L (PositionData.RealisedProfit pos));
                margin = fst (ParseFloat L (InitialMargin pos));
                maintenanceMargin = fst (ParseFloat L (PositionData.MaintenanceMargin pos));
                leverage = (case GetLeverageFloat L pos of
                              (v, None) \<Rightarrow> v
                            | (v, Some err) \<Rightarrow> 0);
                liquidationPrice = (case GetLiquidationPriceFloat L pos of
                                      (v, None) \<Rightarrow> v
                                    | (v, Some err) \<Rightarrow> 0)
            in Some \<lparr> Position.Symbol = PositionData.Symbol pos,
                      Position.Side = side,
                      Position.Size = size,
                      EntryPrice = entryPrice,
                      Position.MarkPrice = markPrice,
                      Position.LiquidationPrice = liquidationPrice,
                      Position.Leverage = truncInt leverage,
                      Position.UnrealizedPnL = unrealizedPnL,
                      Position.RealizedPnL = realizedPnL,
                      Margin = margin,
                      Position.MaintenanceMargin = maintenanceMargin,
                      Position.Timestamp = Now L \<rparr>)))"

fun positionsLoop :: "lib \<Rightarrow> PositionFilter option \<Rightarrow> PositionData list \<Rightarrow> Position list" where
  "positionsLoop L filter' [] = []"
| "positionsLoop L filter' (pos # rest) =
     (case positionOf L filter' pos of
        None \<Rightarrow> positionsLoop L filter' rest
      | Some p \<Rightarrow> p # positionsLoop L filter' rest)"

definition GetPositions :: "lib \<Rightarrow> Client \<Rightarrow> PositionFilter option \<Rightarrow> error + Position list" where
  "GetPositions L c filter' =
     (let params = (case filter' of
                      None \<Rightarrow> []
                    | Some f \<Rightarrow> if PositionFilter.Symbol f \<noteq> []
                                then [(''symbol'', PositionFilter.Symbol f)] else [])
      in case makeRequest L c ''GET'' EndpointPositions params of
           Inl err \<Rightarrow> Inl err
         | Inr body \<Rightarrow>
             (case UnmarshalPositionsResponse L body of
                Inl err \<Rightarrow>
                  Inl (NewBrokerError ''bingx'' ''PARSE_ERROR''
                         ''Failed to parse positions response'' (Some err))
              | Inr response \<Rightarrow>
                  if PositionsResponse.Code response \<noteq> APISuccessCode
                  then Inl (NewBrokerError ''bingx''
                              (''API_'' @ itoa (PositionsResponse.Code response))
                              (PositionsResponse.Msg response) None)
                  else Inr (positionsLoop L filter' (PositionsResponse.Data response))))"

definition GetPosition :: "lib \<Rightarrow> Client \<Rightarrow> string \<Rightarrow> error + Position" where
  "GetPosition L c symbol =
     (let filter' = Some \<lparr> PositionFilter.Symbol = symbol, PositionFilter.Side = None \<rparr> in
      case GetPositions L c filter' of
        Inl err \<Rightarrow> Inl err
      | Inr positions \<Rightarrow>
          if length positions = 0 then Inl ErrPositionNotFound else Inr (positions ! 0))"

section \<open>bingx/orders.go\<close>

text \<open>
  Integer division of Go truncates towards zero (\<open>sdiv\<close>); \<^verbatim>\<open>time.Unix(s, 0)\<close>
  is the instant \<open>s\<close> seconds after the epoch.
\<close>

definition Unix :: "int \<Rightarrow> time" where
  "Unix sec = sec * 1000"

text \<open>
  One turn of the loop of \<^verbatim>\<open>GetOrders\<close>: \<open>None\<close> when the turn ends in
  \<^verbatim>\<open>continue\<close>, otherwise the order that is appended.
\<close>

definition orderOf :: "lib \<Rightarrow> OrderFilter option \<Rightarrow> OpenOrderData \<Rightarrow> Order option" where
  "orderOf L filter' o' =
     (let side = (if OpenOrderData.PositionSide o' = ''LONG'' then SideLong else SideShort);
          reduceOnly = isReduceOnly (OpenOrderData.Side o') (OpenOrderData.PositionSide o')
      in
      if (case filter' of
            None \<Rightarrow> False
          | Some f \<Rightarrow> (case OrderFilter.Side f of
                         None \<Rightarrow> False
                       | Some s \<Rightarrow> s \<noteq> OpenOrderData.Status o'))
      then None
      else
        (let size = fst (ParseFloat L (OpenOrderData.Quantity o'));
             price = fst (ParseFloat L (OpenOrderData.Price o'));
             stopPrice = fst (ParseFloat L (OpenOrderData.StopPrice o'));
             filledSize = fst (ParseFloat L (ExecutedQty o'));
             avgPrice = fst (ParseFloat L (OpenOrderData.AvgPrice o'));
             status = mapBingXStatus (OpenOrderData.Status o') (OpenOrderData.Type o')
         in Some \<lparr> ID = itoa (OpenOrderData.OrderId o'),
                   Order.ClientOrderID = OpenOrderData.ClientOrderID o',
                   Order.Symbol = OpenOrderData.Symbol o',
                   Order.Side = side,
                   Order.Type = OpenOrderData.Type o',
                   Order.Status = status,
                   Order.Size = size,
                   Order.Price = price,
                   Order.StopPrice = stopPrice,
                   FilledSize = filledSize,
                   AveragePrice = avgPrice,
                   Order.ReduceOnly = reduceOnly,
                   Order.TimeInForce = OpenOrderData.TimeInForce o',
                   CreatedAt = Unix (Time o' sdiv 1000),
                   UpdatedAt = Unix (UpdateTime o' sdiv 1000) \<rparr>))"

fun ordersLoop :: "lib \<Rightarrow> OrderFilter option \<Rightarrow> OpenOrderData list \<Rightarrow> Order list" where
  "ordersLoop L filter' [] = []"
| "ordersLoop L filter' (o' # rest) =
     (case orderOf L filter' o' of
        None \<Rightarrow> ordersLoop L filter' rest
      | Some ord \<Rightarrow> ord # ordersLoop L filter' rest)"

definition GetOrders :: "lib \<Rightarrow> Client \<Rightarrow> OrderFilter option \<Rightarrow> error + Order list" where
  "GetOrders L c filter' =
     (let params = (case filter' of
                      None \<Rightarrow> []
                    | Some f \<Rightarrow> if OrderFilter.Symbol f \<noteq> []
                                then [(''symbol'', OrderFilter.Symbol f)] else [])
      in case makeRequest L c ''GET'' EndpointOpenOrders params of
           Inl err \<Rightarrow> Inl err
         | Inr body \<Rightarrow>
             (case UnmarshalOpenOrdersResponse L body of
                Inl err \<Rightarrow>
                  Inl (NewBrokerError ''bingx'' ''PARSE_ERROR''
                         (''Failed to parse orders response: '' @ Error err @ ''. Body: '' @ body)
                         (Some err))
              | Inr response \<Rightarrow>
                  if OpenOrdersResponse.Code response \<noteq> APISuccessCode
                  then Inl (NewBrokerError ''bingx''
                              (''API_'' @ itoa (OpenOrdersResponse.Code response))
                              (OpenOrdersResponse.Msg response) None)
                  else Inr (ordersLoop L filter' (Orders (OpenOrdersResponse.Data response)))))"

text \<open>
  The parameters of \<^verbatim>\<open>PlaceOrder\<close>, then the call and the conversion of the
  exchange's acknowledgement.
\<close>

definition dq :: string where "dq = [CHR 0x22]"

definition placeOrderParams :: "lib \<Rightarrow> OrderRequest \<Rightarrow> params" where
  "placeOrderParams L order =
     (let side = (if OrderRequest.Side order = SideShort then ''SELL'' else ''BUY'');
          positionSide = (if OrderRequest.Side order = SideShort then ''SHORT'' else ''LONG'');
          params = [(''symbol'', OrderRequest.Symbol order),
                    (''side'', side),
                    (''positionSide'', positionSide),
                    (''type'', OrderRequest.Type order),
                    (''quantity'', Sprintf_8f L (OrderRequest.Size order))];
          params = (if OrderRequest.Price order > 0
                    then AList.update ''price'' (Sprintf_8f L (OrderRequest.Price order)) params
                    else params);
          params = (if OrderRequest.StopPrice order > 0
                    then AList.update ''stopPrice'' (Sprintf_8f L (OrderRequest.StopPrice order)) params
                    else params);
          params = (if OrderRequest.TimeInForce order \<noteq> []
                    then AList.update ''timeInForce'' (OrderRequest.TimeInForce order) params
                    else if OrderRequest.Type order = OrderTypeLimit
                    then AList.update ''timeInForce'' ''GTC'' params
                    else params);
          params = (if OrderRequest.ReduceOnly order
                    then AList.update ''reduceOnly'' ''true'' params
                    else params);
          params = (case StopLoss order of
                      None \<Rightarrow> params
                    | Some sl \<Rightarrow>
                        AList.update ''stopLoss''
                          (''{'' @ dq @ ''type'' @ dq @ '':'' @ dq @ ''STOP'' @ dq @ '','' @
                           dq @ ''stopPrice'' @ dq @ '':'' @
                           Sprintf_g L (StopLossConfig.TriggerPrice sl) @ '','' @
                           dq @ ''price'' @ dq @ '':'' @
                           Sprintf_g L (StopLossConfig.TriggerPrice sl) @ '','' @
                           dq @ ''workingType'' @ dq @ '':'' @ dq @ ''MARK_PRICE'' @ dq @ ''}'')
                          params);
          params = (case TakeProfit order of
                      None \<Rightarrow> params
                    | Some tp \<Rightarrow>
                        AList.update ''takeProfit''
                          (''{'' @ dq @ ''type'' @ dq @ '':'' @ dq @ ''TAKE_PROFIT'' @ dq @ '','' @
                           dq @ ''stopPrice'' @ dq @ '':'' @
                           Sprintf_g L (TakeProfitConfig.TriggerPrice tp) @ '','' @
                           dq @ ''price'' @ dq @ '':'' @
                           Sprintf_g L (TakeProfitConfig.OrderPrice tp) @ '','' @
                           dq @ ''workingType'' @ dq @ '':'' @ dq @ ''MARK_PRICE'' @ dq @ ''}'')
                          params)
      in params)"

definition PlaceOrder :: "lib \<Rightarrow> Client \<Rightarrow> OrderRequest \<Rightarrow> error + Order" where
  "PlaceOrder L c order =
     (let params = placeOrderParams L order in
      case (if StopLoss order \<noteq> None \<or> TakeProfit order \<noteq> None
            then makeRequestWithPayload L ''POST'' EndpointPlaceOrder params
            else makeRequest L c ''POST'' EndpointPlaceOrder params) of
        Inl err \<Rightarrow> Inl err
      | Inr body \<Rightarrow>
          (case UnmarshalOrderResponse L body of
             Inl err \<Rightarrow>
               Inl (NewBrokerError ''bingx'' ''PARSE_ERROR'' ''Failed to parse order response''
                      (Some err))
           | Inr response \<Rightarrow>
               if OrderResponse.Code response \<noteq> APISuccessCode
               then Inl (NewBrokerError ''bingx'' (''API_'' @ itoa (OrderResponse.Code response))
                           (OrderResponse.Msg response) None)
               else
                 (let d = OrderResponse.Data response;
                      price = fst (ParseFloat L (OrderResponseData.Price d));
                      size = fst (ParseFloat L (OrderResponseData.Quantity d));
                      brokerSide = (if OrderResponseData.PositionSide d = ''LONG''
                                    then SideLong else SideShort)
                  in Inr \<lparr> ID = itoa (OrderResponseData.OrderId d),
                           Order.ClientOrderID = [],
                           Order.Symbol = OrderResponseData.Symbol d,
                           Order.Side = brokerSide,
                           Order.Type = OrderResponseData.Type d,
                           Order.Status = OrderResponseData.Status d,
                           Order.Size = size,
                           Order.Price = price,
                           Order.StopPrice = 0,
                           FilledSize = 0,
                           AveragePrice = 0,
                           Order.ReduceOnly = False,
                           Order.TimeInForce = [],
                           CreatedAt = Now L,
                           UpdatedAt = Now L \<rparr>)))"

section \<open>A concrete instance of the library\<close>

text \<open>
  The theorems below hold for every library record. To run the client on
  concrete payloads the parameters are instantiated: \<open>decimalParseFloat\<close>
  accepts an optional sign, decimal digits and an optional fraction (at least
  one digit in all) and rejects everything else, as \<^verbatim>\<open>strconv.ParseFloat\<close> does
  on such inputs; exponents, hexadecimal notation, \<^verbatim>\<open>Inf\<close> and \<^verbatim>\<open>NaN\<close> are outside
  this instance. On a syntax error Go returns the value 0 together with the
  error.
\<close>

definition isDigit :: "char \<Rightarrow> bool" where
  "isDigit c \<longleftrightarrow> CHR ''0'' \<le> c \<and> c \<le> CHR ''9''"

definition digitsValue :: "string \<Rightarrow> nat" where
  "digitsValue ds = foldl (\<lambda>acc c. 10 * acc + (of_char c - 48)) 0 ds"

definition decimalParseFloat :: "string \<Rightarrow> float64 \<times> error option" where
  "decimalParseFloat s =
     (let neg = (s \<noteq> [] \<and> hd s = CHR ''-'');
          body = (if s \<noteq> [] \<and> (hd s = CHR ''-'' \<or> hd s = CHR ''+'') then tl s else s);
          ip = takeWhile isDigit body;
          rest = dropWhile isDigit body;
          fp = (if rest \<noteq> [] \<and> hd rest = CHR ''.'' then takeWhile isDigit (tl rest) else []);
          rest' = (if rest \<noteq> [] \<and> hd rest = CHR ''.'' then dropWhile isDigit (tl rest) else rest)
      in if rest' \<noteq> [] \<or> (ip = [] \<and> fp = [])
         then (0, Some (LibError ''strconv.ParseFloat: invalid syntax''))
         else (let m = of_nat (digitsValue (ip @ fp)) / 10 ^ length fp
               in (if neg then - m else m, None)))"

text \<open>
  A second instance for numbers in scientific notation: the part before the
  letter \<^verbatim>\<open>e\<close> is read by \<open>decimalParseFloat\<close>, the part after it is an
  optionally signed decimal exponent. A value whose magnitude reaches
  \<open>2 ^ 1024 - 2 ^ 970\<close>, from where on float64 rounds to an infinity, is a range
  error, as it is for \<^verbatim>\<open>strconv.ParseFloat\<close>; Go returns an infinity together
  with that error, for which 0 stands here. An accepted value is the exact
  rational, not rounded.
\<close>

definition notExponentMark :: "char \<Rightarrow> bool" where
  "notExponentMark c \<longleftrightarrow> c \<noteq> CHR ''e'' \<and> c \<noteq> CHR ''E''"

definition scientificParseFloat :: "string \<Rightarrow> float64 \<times> error option" where
  "scientificParseFloat s =
     (let mant = takeWhile notExponentMark s;
          erest = dropWhile notExponentMark s;
          esigned = tl erest;
          eneg = (esigned \<noteq> [] \<and> hd esigned = CHR ''-'');
          ed = (if esigned \<noteq> [] \<and> (hd esigned = CHR ''-'' \<or> hd esigned = CHR ''+'')
                then tl esigned else esigned)
      in case decimalParseFloat mant of
           (m, Some err) \<Rightarrow> (0, Some err)
         | (m, None) \<Rightarrow>
             if erest = []
             then (if 2 ^ 1024 - 2 ^ 970 \<le> \<bar>m\<bar>
                   then (0, Some (LibError ''strconv.ParseFloat: value out of range''))
                   else (m, None))
             else if ed = [] \<or> dropWhile isDigit ed \<noteq> []
             then (0, Some (LibError ''strconv.ParseFloat: invalid syntax''))
             else
               (let v = (if eneg then m / 10 ^ digitsValue ed else m * 10 ^ digitsValue ed)
                in if 2 ^ 1024 - 2 ^ 970 \<le> \<bar>v\<bar>
                   then (0, Some (LibError ''strconv.ParseFloat: value out of range''))
                   else (v, None)))"

definition exampleLib :: lib where
  "exampleLib =
     \<lparr> ParseFloat = decimalParseFloat,
       Sprintf_8f = (\<lambda>x. ''0.00000000''),
       Sprintf_g = (\<lambda>x. ''0''),
       HmacSha256 = (\<lambda>key msg. [CHR 0x00, CHR 0xAB]),
       Now = 1700000000000,
       Do = (\<lambda>method url headers. Response 200 ''{}''),
       UnmarshalBalanceResponse = (\<lambda>body. Inl (LibError ''unexpected end of JSON input'')),
       UnmarshalPositionsResponse = (\<lambda>body. Inl (LibError ''unexpected end of JSON input'')),
       UnmarshalOrderResponse = (\<lambda>body. Inl (LibError ''unexpected end of JSON input'')),
       UnmarshalOpenOrdersResponse = (\<lambda>body. Inl (LibError ''unexpected end of JSON input'')),
       makeRequestWithPayload = (\<lambda>method endpoint params. Inr ''{}'') \<rparr>"

definition scientificLib :: lib where
  "scientificLib = exampleLib \<lparr> ParseFloat := scientificParseFloat \<rparr>"

definition exampleClient :: Client where
  "exampleClient =
     \<lparr> apiKey = ''key'', secretKey = ''secret'', baseURL = ''https://open-api.bingx.com'' \<rparr>"

definition examplePosition :: PositionData where
  "examplePosition =
     \<lparr> PositionData.Symbol = ''BTC-USDT'',
       PositionData.PositionSide = ''LONG'',
       PositionAmt = ''0.1'',
       AvailableAmt = ''0.1'',
       PositionData.UnrealizedProfit = ''100.00'',
       PositionData.RealisedProfit = ''0'',
       InitialMargin = ''450.00'',
       PositionData.MaintenanceMargin = ''18.00'',
       PositionValue = ''4600.00'',
       PositionData.Leverage = Some (JString ''10''),
       IsolatedMargin = ''0'',
       PositionData.AvgPrice = ''45000.00'',
       MaxNotionalValue = ''0'',
       BidNotional = ''0'',
       AskNotional = ''0'',
       PositionData.LiquidationPrice = Some (JString ''42000.50''),
       PositionData.MarkPrice = ''46000.00'' \<rparr>"

definition exampleBalanceData :: BalanceData where
  "exampleBalanceData =
     \<lparr> UserId = ''123456'',
       BalanceData.Asset = ''USDT'',
       Balance = ''1000.00'',
       Equity = ''1050.00'',
       BalanceData.UnrealizedProfit = ''50.00'',
       BalanceData.RealisedProfit = ''100.00'',
       AvailableMargin = ''950.00'',
       UsedMargin = ''100.00'',
       FreezedMargin = ''0'',
       ShortUid = ''1'' \<rparr>"

definition exampleOpenOrder :: OpenOrderData where
  "exampleOpenOrder =
     \<lparr> OpenOrderData.OrderId = 7,
       OpenOrderData.Symbol = ''BTC-USDT'',
       OpenOrderData.Side = ''SELL'',
       OpenOrderData.PositionSide = ''LONG'',
       OpenOrderData.Type = ''STOP_MARKET'',
       OpenOrderData.Quantity = ''0.1'',
       OpenOrderData.Price = ''0'',
       OpenOrderData.StopPrice = ''44000'',
       ExecutedQty = ''0'',
       OpenOrderData.AvgPrice = ''0'',
       OpenOrderData.Status = ''NEW'',
       OpenOrderData.TimeInForce = ''GTC'',
       OpenOrderData.ClientOrderID = [],
       OpenOrderData.WorkingType = ''MARK_PRICE'',
       Time = 1700000000000,
       UpdateTime = 1700000001000 \<rparr>"

text \<open>
  Decoded exchange answers for the examples: three open orders (a trigger order
  that is new, a limit order that is new, a trigger order that is filled),
  three positions (one with a string leverage, one with a numeric leverage,
  one of size zero), and a balance answer without entries.
\<close>

definition exampleOrdersLib :: lib where
  "exampleOrdersLib =
     exampleLib \<lparr> UnmarshalOpenOrdersResponse :=
       (\<lambda>body. Inr \<lparr> OpenOrdersResponse.Code = 0,
                      OpenOrdersResponse.Data =
                        \<lparr> Orders = [exampleOpenOrder,
                                     exampleOpenOrder \<lparr> OpenOrderData.Type := ''LIMIT'' \<rparr>,
                                     exampleOpenOrder \<lparr> OpenOrderData.Status := ''FILLED'' \<rparr>] \<rparr>,
                      OpenOrdersResponse.Msg = [] \<rparr>) \<rparr>"

definition examplePendingOrder :: Order where
  "examplePendingOrder =
     \<lparr> ID = ''7'', Order.ClientOrderID = [], Order.Symbol = ''BTC-USDT'', Order.Side = ''LONG'',
       Order.Type = ''STOP_MARKET'', Order.Status = ''PENDING'', Order.Size = 1/10, Order.Price = 0,
       Order.StopPrice = 44000, FilledSize = 0, AveragePrice = 0, Order.ReduceOnly = True,
       Order.TimeInForce = ''GTC'', CreatedAt = 1700000000000, UpdatedAt = 1700000001000 \<rparr>"

definition exampleOrders :: "Order list" where
  "exampleOrders =
     [examplePendingOrder,
      examplePendingOrder \<lparr> Order.Type := ''LIMIT'', Order.Status := ''NEW'' \<rparr>,
      examplePendingOrder \<lparr> Order.Status := ''FILLED'' \<rparr>]"

definition exampleNewFilter :: OrderFilter where
  "exampleNewFilter =
     \<lparr> OrderFilter.Symbol = [], OrderFilter.Side = Some ''NEW'', OrderFilter.Status = None \<rparr>"

definition examplePositionsLib :: lib where
  "examplePositionsLib =
     exampleLib \<lparr> UnmarshalPositionsResponse :=
       (\<lambda>body. Inr \<lparr> PositionsResponse.Code = 0,
                      PositionsResponse.Data =
                        [examplePosition,
                         examplePosition \<lparr> PositionData.Symbol := ''ETH-USDT'',
                                           PositionData.PositionSide := ''SHORT'',
                                           PositionAmt := ''1.5'',
                                           PositionData.Leverage := Some (JNumber ''25'') \<rparr>,
                         examplePosition \<lparr> PositionAmt := ''0'' \<rparr>],
                      PositionsResponse.Msg = [] \<rparr>) \<rparr>"

definition exampleLong :: Position where
  "exampleLong =
     \<lparr> Position.Symbol = ''BTC-USDT'', Position.Side = ''LONG'', Position.Size = 1/10,
       EntryPrice = 45000, Position.MarkPrice = 46000, Position.LiquidationPrice = 84001/2,
       Position.Leverage = 10, Position.UnrealizedPnL = 100, Position.RealizedPnL = 0,
       Margin = 450, Position.MaintenanceMargin = 18, Position.Timestamp = 1700000000000 \<rparr>"

definition examplePositions :: "Position list" where
  "examplePositions =
     [exampleLong,
      exampleLong \<lparr> Position.Symbol := ''ETH-USDT'', Position.Side := ''SHORT'',
                    Position.Size := 3/2, Position.Leverage := 25 \<rparr>]"

definition emptyBalanceLib :: lib where
  "emptyBalanceLib =
     exampleLib \<lparr> UnmarshalBalanceResponse :=
       (\<lambda>body. Inr \<lparr> BalanceResponse.Code = 0, BalanceResponse.Data = [],
                      BalanceResponse.Msg = [] \<rparr>) \<rparr>"

definition noPositionsLib :: lib where
  "noPositionsLib =
     exampleLib \<lparr> UnmarshalPositionsResponse :=
       (\<lambda>body. Inr \<lparr> PositionsResponse.Code = 0, PositionsResponse.Data = [],
                      PositionsResponse.Msg = [] \<rparr>) \<rparr>"

text \<open>
  A positions answer and a balance answer with fields that are no numerals, and
  a parameter map for the signing examples.
\<close>

definition badPositionsLib :: lib where
  "badPositionsLib =
     exampleLib \<lparr> UnmarshalPositionsResponse :=
       (\<lambda>body. Inr \<lparr> PositionsResponse.Code = 0,
                      PositionsResponse.Data =
                        [examplePosition \<lparr> PositionData.Leverage := Some (JString ''abc''),
                                           PositionData.AvgPrice := ''abc'' \<rparr>],
                      PositionsResponse.Msg = [] \<rparr>) \<rparr>"

definition badBalanceLib :: lib where
  "badBalanceLib =
     exampleLib \<lparr> UnmarshalBalanceResponse :=
       (\<lambda>body. Inr \<lparr> BalanceResponse.Code = 0,
                      BalanceResponse.Data = [exampleBalanceData \<lparr> Equity := ''abc'' \<rparr>],
                      BalanceResponse.Msg = [] \<rparr>) \<rparr>"

definition exampleParams :: params where
  "exampleParams = [(''timestamp'', ''17''), (''symbol'', ''BTC-USDT'')]"

text \<open>An open-orders answer and an order acknowledgement with fields that are no numerals.\<close>

definition badOrdersLib :: lib where
  "badOrdersLib =
     exampleLib \<lparr> UnmarshalOpenOrdersResponse :=
       (\<lambda>body. Inr \<lparr> OpenOrdersResponse.Code = 0,
                      OpenOrdersResponse.Data =
                        \<lparr> Orders = [exampleOpenOrder \<lparr> OpenOrderData.Quantity := ''abc'',
                                                         OpenOrderData.StopPrice := ''abc'' \<rparr>] \<rparr>,
                      OpenOrdersResponse.Msg = [] \<rparr>) \<rparr>"

definition badOrderLib :: lib where
  "badOrderLib =
     exampleLib \<lparr> UnmarshalOrderResponse :=
       (\<lambda>body. Inr \<lparr> OrderResponse.Code = 0,
                      OrderResponse.Data =
                        \<lparr> OrderResponseData.OrderId = 8,
                          OrderResponseData.Symbol = ''BTC-USDT'',
                          OrderResponseData.Side = ''BUY'',
                          OrderResponseData.PositionSide = ''LONG'',
                          OrderResponseData.Type = ''LIMIT'',
                          OrderResponseData.Quantity = ''abc'',
                          OrderResponseData.Price = ''abc'',
                          OrderResponseData.Status = ''NEW'' \<rparr>,
                      OrderResponse.Msg = [] \<rparr>) \<rparr>"

definition exampleOrderRequest :: OrderRequest where
  "exampleOrderRequest =
     \<lparr> OrderRequest.Symbol = ''BTC-USDT'',
       OrderRequest.Side = ''LONG'',
       OrderRequest.Type = ''LIMIT'',
       OrderRequest.Size = 1/10,
       OrderRequest.Price = 45000,
       OrderRequest.StopPrice = 0,
       OrderRequest.TimeInForce = [],
       OrderRequest.ReduceOnly = False,
       StopLoss = None,
       TakeProfit = None,
       Trailing = None \<rparr>"

section \<open>Properties\<close>

subsection \<open>The loops as maps over the decoded answer\<close>

lemma GetOrders_Inr:
  assumes "GetOrders L c f = Inr orders"
  shows "\<exists>body response. UnmarshalOpenOrdersResponse L body = Inr response
           \<and> OpenOrdersResponse.Code response = 0
           \<and> orders = ordersLoop L f (Orders (OpenOrdersResponse.Data response))"
  using assms
  by (auto simp add: GetOrders_def Let_def APISuccessCode_def split: sum.splits if_splits)

lemma GetPositions_Inr:
  assumes "GetPositions L c f = Inr positions"
  shows "\<exists>body response. UnmarshalPositionsResponse L body = Inr response
           \<and> PositionsResponse.Code response = 0
           \<and> positions = positionsLoop L f (PositionsResponse.Data response)"
  using assms
  by (auto simp add: GetPositions_def Let_def APISuccessCode_def split: sum.splits if_splits)

lemma orderOf_None_iff:
  "orderOf L f o' = None \<longleftrightarrow>
     (\<exists>flt s. f = Some flt \<and> OrderFilter.Side flt = Some s \<and> s \<noteq> OpenOrderData.Status o')"
  by (auto simp add: orderOf_def Let_def split: option.splits)

lemma orderOf_filter_irrelevant:
  "orderOf L f o' = Some ord \<Longrightarrow> orderOf L None o' = Some ord"
  by (auto simp add: orderOf_def Let_def split: option.splits if_splits)

lemma ordersLoop_eq_map:
  "ordersLoop L f os =
     map (\<lambda>o'. the (orderOf L None o')) (filter (\<lambda>o'. orderOf L f o' \<noteq> None) os)"
proof (induction os)
  case Nil
  show ?case by simp
next
  case (Cons o' os)
  show ?case
  proof (cases "orderOf L f o'")
    case None
    then show ?thesis using Cons.IH by simp
  next
    case (Some ord)
    then have "orderOf L None o' = Some ord" by (rule orderOf_filter_irrelevant)
    then show ?thesis using Some Cons.IH by simp
  qed
qed

lemma orderOf_None_Status:
  "Order.Status (the (orderOf L None o')) =
     mapBingXStatus (OpenOrderData.Status o') (OpenOrderData.Type o')"
  by (simp add: orderOf_def Let_def)

lemma positionOf_None_iff:
  "positionOf L f pos = None \<longleftrightarrow>
     fst (ParseFloat L (PositionAmt pos)) = 0
     \<or> (\<exists>flt s. f = Some flt \<and> PositionFilter.Side flt = Some s
           \<and> s \<noteq> (if PositionData.PositionSide pos = ''LONG'' then SideLong else SideShort))"
  by (auto simp add: positionOf_def Let_def split: option.splits)

lemma positionOf_Some_fields:
  assumes "positionOf L f pos = Some p"
  shows "Position.Size p = fst (ParseFloat L (PositionAmt pos))"
    and "Position.Size p \<noteq> 0"
    and "Position.Side p = (if PositionData.PositionSide pos = ''LONG'' then SideLong else SideShort)"
  using assms
  by (auto simp add: positionOf_def Let_def split: option.splits if_splits)

lemma positionsLoop_sources:
  "p \<in> set (positionsLoop L f ps) \<Longrightarrow> \<exists>pos \<in> set ps. positionOf L f pos = Some p"
  by (induction ps) (auto split: option.splits)

lemma positionOf_filter_irrelevant:
  "positionOf L f pos = Some p \<Longrightarrow> positionOf L None pos = Some p"
  by (auto simp add: positionOf_def Let_def split: option.splits if_splits)

lemma positionsLoop_eq_map:
  "positionsLoop L f ps =
     map (\<lambda>pos. the (positionOf L None pos)) (filter (\<lambda>pos. positionOf L f pos \<noteq> None) ps)"
proof (induction ps)
  case Nil
  show ?case by simp
next
  case (Cons pos ps)
  show ?case
  proof (cases "positionOf L f pos")
    case None
    then show ?thesis using Cons.IH by simp
  next
    case (Some p)
    then have "positionOf L None pos = Some p" by (rule positionOf_filter_irrelevant)
    then show ?thesis using Some Cons.IH by simp
  qed
qed

lemma positionsLoop_drop_zero:
  "positionsLoop L f (filter (\<lambda>pos. fst (ParseFloat L (PositionAmt pos)) \<noteq> 0) ps) =
     positionsLoop L f ps"
proof (induction ps)
  case Nil
  show ?case by simp
next
  case (Cons pos ps)
  show ?case
  proof (cases "fst (ParseFloat L (PositionAmt pos)) = 0")
    case True
    then have "positionOf L f pos = None" by (simp add: positionOf_None_iff)
    then show ?thesis using True Cons.IH by simp
  next
    case False
    then show ?thesis using Cons.IH by (simp split: option.splits)
  qed
qed

subsection \<open>Order status and reduce-only inference\<close>

lemma mapBingXStatus_eq:
  "mapBingXStatus bingxStatus orderType =
     (if orderType \<in> {''STOP'', ''STOP_MARKET'', ''TAKE_PROFIT'', ''TAKE_PROFIT_MARKET''}
         \<and> bingxStatus = ''NEW''
      then ''PENDING'' else bingxStatus)"
  by (simp add: mapBingXStatus_def triggerTypes_def)

text \<open>
  Claim C3. \<^verbatim>\<open>mapBingXStatus\<close> gives PENDING exactly for the four trigger order
  types with raw status NEW and returns every other raw status unchanged; and
  whenever \<^verbatim>\<open>GetOrders\<close> succeeds, the statuses of the orders it returns are, in
  order, the statuses so mapped of the orders of the decoded answer that the
  loop does not skip.
\<close>

theorem order_status_remap:
  "mapBingXStatus bingxStatus orderType =
     (if orderType \<in> {''STOP'', ''STOP_MARKET'', ''TAKE_PROFIT'', ''TAKE_PROFIT_MARKET''}
         \<and> bingxStatus = ''NEW''
      then ''PENDING'' else bingxStatus)
   \<and> (GetOrders L c filter' = Inr orders \<longrightarrow>
        (\<exists>response. (\<exists>body. UnmarshalOpenOrdersResponse L body = Inr response)
           \<and> map Order.Status orders =
               map (\<lambda>o'. if OpenOrderData.Type o' \<in>
                              {''STOP'', ''STOP_MARKET'', ''TAKE_PROFIT'', ''TAKE_PROFIT_MARKET''}
                            \<and> OpenOrderData.Status o' = ''NEW''
                         then ''PENDING'' else OpenOrderData.Status o')
                 (filter (\<lambda>o'. orderOf L filter' o' \<noteq> None)
                    (Orders (OpenOrdersResponse.Data response)))))"
proof (intro conjI impI)
  show "mapBingXStatus bingxStatus orderType =
     (if orderType \<in> {''STOP'', ''STOP_MARKET'', ''TAKE_PROFIT'', ''TAKE_PROFIT_MARKET''}
         \<and> bingxStatus = ''NEW''
      then ''PENDING'' else bingxStatus)"
    by (rule mapBingXStatus_eq)
next
  assume "GetOrders L c filter' = Inr orders"
  then obtain body response where
    u: "UnmarshalOpenOrdersResponse L body = Inr response" and
    o: "orders = ordersLoop L filter' (Orders (OpenOrdersResponse.Data response))"
    using GetOrders_Inr by blast
  have "map Order.Status orders =
          map (\<lambda>o'. mapBingXStatus (OpenOrderData.Status o') (OpenOrderData.Type o'))
            (filter (\<lambda>o'. orderOf L filter' o' \<noteq> None)
               (Orders (OpenOrdersResponse.Data response)))"
    unfolding o ordersLoop_eq_map by (simp add: orderOf_None_Status o_def)
  then show "\<exists>response. (\<exists>body. UnmarshalOpenOrdersResponse L body = Inr response)
           \<and> map Order.Status orders =
               map (\<lambda>o'. if OpenOrderData.Type o' \<in>
                              {''STOP'', ''STOP_MARKET'', ''TAKE_PROFIT'', ''TAKE_PROFIT_MARKET''}
                            \<and> OpenOrderData.Status o' = ''NEW''
                         then ''PENDING'' else OpenOrderData.Status o')
                 (filter (\<lambda>o'. orderOf L filter' o' \<noteq> None)
                    (Orders (OpenOrdersResponse.Data response)))"
    using u unfolding mapBingXStatus_eq by blast
qed

theorem order_status_remap_witness:
  "GetOrders exampleOrdersLib exampleClient None = Inr exampleOrders
   \<and> (\<exists>response. (\<exists>body. UnmarshalOpenOrdersResponse exampleOrdersLib body = Inr response)
           \<and> map Order.Status exampleOrders =
               map (\<lambda>o'. if OpenOrderData.Type o' \<in>
                              {''STOP'', ''STOP_MARKET'', ''TAKE_PROFIT'', ''TAKE_PROFIT_MARKET''}
                            \<and> OpenOrderData.Status o' = ''NEW''
                         then ''PENDING'' else OpenOrderData.Status o')
                 (filter (\<lambda>o'. orderOf exampleOrdersLib None o' \<noteq> None)
                    (Orders (OpenOrdersResponse.Data response))))"
proof -
  have h: "GetOrders exampleOrdersLib exampleClient None = Inr exampleOrders"
    by (simp add: makeRequest_def exampleLib_def exampleClient_def APISuccessCode_def
        Let_def NewBrokerError_def GetOrders_def orderOf_def mapBingXStatus_def
        triggerTypes_def isReduceOnly_def Unix_def signed_divide_int_def SideLong_def
        SideShort_def itoa_def natDigits.simps digitChar_def exampleOpenOrder_def
        examplePendingOrder_def decimalParseFloat_def isDigit_def digitsValue_def
        exampleOrdersLib_def exampleOrders_def)
  show ?thesis
    using h order_status_remap [where L = exampleOrdersLib and c = exampleClient
        and filter' = None and orders = exampleOrders, THEN conjunct2, THEN mp, OF h]
    by (rule conjI)
qed

text \<open>
  Claim C7. \<^verbatim>\<open>isReduceOnly\<close> is true on (SELL, LONG) and (BUY, SHORT), false on
  (BUY, LONG) and (SELL, SHORT), and false on every other pair of strings.
\<close>

theorem isReduceOnly_table:
  "isReduceOnly ''SELL'' ''LONG'' \<and> isReduceOnly ''BUY'' ''SHORT''
   \<and> \<not> isReduceOnly ''BUY'' ''LONG'' \<and> \<not> isReduceOnly ''SELL'' ''SHORT''
   \<and> (\<forall>side positionSide.
         (side, positionSide) \<noteq> (''SELL'', ''LONG'') \<and> (side, positionSide) \<noteq> (''BUY'', ''SHORT'')
         \<longrightarrow> \<not> isReduceOnly side positionSide)"
  by (simp add: isReduceOnly_def)

theorem isReduceOnly_table_witness:
  "(''SELL'', ''BOTH'') \<noteq> (''SELL'', ''LONG'') \<and> (''SELL'', ''BOTH'') \<noteq> (''BUY'', ''SHORT'')
   \<and> \<not> isReduceOnly ''SELL'' ''BOTH''"
proof -
  have h: "(''SELL'', ''BOTH'') \<noteq> (''SELL'', ''LONG'') \<and> (''SELL'', ''BOTH'') \<noteq> (''BUY'', ''SHORT'')"
    by simp
  note t = isReduceOnly_table [THEN conjunct2, THEN conjunct2, THEN conjunct2, THEN conjunct2]
  have "\<not> isReduceOnly ''SELL'' ''BOTH''"
    by (rule t [THEN spec [where x = "''SELL''"], THEN spec [where x = "''BOTH''"], THEN mp, OF h])
  then show ?thesis using h by simp
qed

text \<open>
  Claim C10. When the filter's field Side is set to \<open>s\<close> and \<^verbatim>\<open>GetOrders\<close>
  succeeds, the orders returned are exactly the conversions of those orders of
  the decoded answer whose raw status string equals \<open>s\<close>: the comparison is
  against the raw status (before the remapping to PENDING), not against the
  side, and the filter's field Status plays no part.
\<close>

theorem order_filter_compares_status:
  assumes "GetOrders L c (Some f) = Inr orders" and "OrderFilter.Side f = Some s"
  shows "\<exists>response. (\<exists>body. UnmarshalOpenOrdersResponse L body = Inr response)
           \<and> orders = map (\<lambda>o'. the (orderOf L None o'))
                        (filter (\<lambda>o'. OpenOrderData.Status o' = s)
                           (Orders (OpenOrdersResponse.Data response)))"
proof -
  obtain body response where
    u: "UnmarshalOpenOrdersResponse L body = Inr response" and
    o: "orders = ordersLoop L (Some f) (Orders (OpenOrdersResponse.Data response))"
    using GetOrders_Inr [OF assms(1)] by blast
  have "\<And>o'. (orderOf L (Some f) o' \<noteq> None) = (OpenOrderData.Status o' = s)"
    using assms(2) by (auto simp add: orderOf_None_iff)
  then have "orders = map (\<lambda>o'. the (orderOf L None o'))
                        (filter (\<lambda>o'. OpenOrderData.Status o' = s)
                           (Orders (OpenOrdersResponse.Data response)))"
    unfolding o ordersLoop_eq_map by simp
  then show ?thesis using u by blast
qed

theorem order_filter_compares_status_witness:
  "GetOrders exampleOrdersLib exampleClient (Some exampleNewFilter) =
     Inr [examplePendingOrder,
          examplePendingOrder \<lparr> Order.Type := ''LIMIT'', Order.Status := ''NEW'' \<rparr>]
   \<and> OrderFilter.Side exampleNewFilter = Some ''NEW''
   \<and> (\<exists>response. (\<exists>body. UnmarshalOpenOrdersResponse exampleOrdersLib body = Inr response)
         \<and> [examplePendingOrder,
             examplePendingOrder \<lparr> Order.Type := ''LIMIT'', Order.Status := ''NEW'' \<rparr>] =
            map (\<lambda>o'. the (orderOf exampleOrdersLib None o'))
              (filter (\<lambda>o'. OpenOrderData.Status o' = ''NEW'')
                 (Orders (OpenOrdersResponse.Data response))))"
proof -
  have h1: "GetOrders exampleOrdersLib exampleClient (Some exampleNewFilter) =
     Inr [examplePendingOrder,
          examplePendingOrder \<lparr> Order.Type := ''LIMIT'', Order.Status := ''NEW'' \<rparr>]"
    by (simp add: makeRequest_def exampleLib_def exampleClient_def APISuccessCode_def
        Let_def NewBrokerError_def GetOrders_def orderOf_def mapBingXStatus_def
        triggerTypes_def isReduceOnly_def Unix_def signed_divide_int_def SideLong_def
        SideShort_def itoa_def natDigits.simps digitChar_def exampleOpenOrder_def
        examplePendingOrder_def decimalParseFloat_def isDigit_def digitsValue_def
        exampleOrdersLib_def exampleNewFilter_def)
  have h2: "OrderFilter.Side exampleNewFilter = Some ''NEW''"
    by (simp add: exampleNewFilter_def)
  show ?thesis
    using h1 h2 order_filter_compares_status [OF h1 h2] by (intro conjI)
qed

subsection \<open>Positions\<close>

text \<open>
  Claim C4. A position whose decoded amount is zero is skipped by the loop of
  \<^verbatim>\<open>GetPositions\<close> whatever the filter; hence every position in a result of
  \<^verbatim>\<open>GetPositions\<close> has a size different from zero, and the result is the one
  obtained from the decoded answer with its zero-size entries removed.
\<close>

theorem zero_size_positions_excluded:
  "(fst (ParseFloat L (PositionAmt pos)) = 0 \<longrightarrow> positionOf L filter' pos = None)
   \<and> (GetPositions L c filter' = Inr positions \<longrightarrow>
        (\<forall>p \<in> set positions. Position.Size p \<noteq> 0)
        \<and> (\<exists>response. (\<exists>body. UnmarshalPositionsResponse L body = Inr response)
             \<and> positions = positionsLoop L filter'
                  (filter (\<lambda>pos. fst (ParseFloat L (PositionAmt pos)) \<noteq> 0)
                     (PositionsResponse.Data response))))"
proof (intro conjI impI)
  assume "fst (ParseFloat L (PositionAmt pos)) = 0"
  then show "positionOf L filter' pos = None" by (simp add: positionOf_None_iff)
next
  assume g: "GetPositions L c filter' = Inr positions"
  then obtain body response where
    u: "UnmarshalPositionsResponse L body = Inr response" and
    o: "positions = positionsLoop L filter' (PositionsResponse.Data response)"
    using GetPositions_Inr by blast
  show "\<forall>p \<in> set positions. Position.Size p \<noteq> 0"
  proof
    fix p assume "p \<in> set positions"
    then obtain pos where "positionOf L filter' pos = Some p"
      using o positionsLoop_sources by blast
    then show "Position.Size p \<noteq> 0" by (rule positionOf_Some_fields(2))
  qed
  have "positionsLoop L filter' ps =
          positionsLoop L filter' (filter (\<lambda>pos. fst (ParseFloat L (PositionAmt pos)) \<noteq> 0) ps)" for ps
    by (rule positionsLoop_drop_zero [symmetric])
  then have "positions = positionsLoop L filter'
               (filter (\<lambda>pos. fst (ParseFloat L (PositionAmt pos)) \<noteq> 0)
                  (PositionsResponse.Data response))"
    using o by simp
  then show "\<exists>response. (\<exists>body. UnmarshalPositionsResponse L body = Inr response)
             \<and> positions = positionsLoop L filter'
                  (filter (\<lambda>pos. fst (ParseFloat L (PositionAmt pos)) \<noteq> 0)
                     (PositionsResponse.Data response))"
    using u by blast
qed

theorem zero_size_positions_excluded_witness:
  "fst (ParseFloat exampleLib (PositionAmt (examplePosition \<lparr> PositionAmt := ''0'' \<rparr>))) = 0
   \<and> positionOf exampleLib None (examplePosition \<lparr> PositionAmt := ''0'' \<rparr>) = None
   \<and> GetPositions examplePositionsLib exampleClient None = Inr examplePositions
   \<and> list_all (\<lambda>p. Position.Size p \<noteq> 0) examplePositions"
proof -
  have h0: "fst (ParseFloat exampleLib (PositionAmt (examplePosition \<lparr> PositionAmt := ''0'' \<rparr>))) = 0"
    by (simp add: exampleLib_def examplePosition_def decimalParseFloat_def isDigit_def
        digitsValue_def)
  have h: "GetPositions examplePositionsLib exampleClient None = Inr examplePositions"
    by (simp add: makeRequest_def exampleLib_def exampleClient_def APISuccessCode_def
        Let_def NewBrokerError_def GetPositions_def positionOf_def GetLeverageFloat_def
        GetLiquidationPriceFloat_def truncInt_def SideLong_def SideShort_def
        examplePosition_def exampleLong_def decimalParseFloat_def isDigit_def
        digitsValue_def examplePositionsLib_def examplePositions_def)
  note a = zero_size_positions_excluded [where L = exampleLib and filter' = None
        and pos = "examplePosition \<lparr> PositionAmt := ''0'' \<rparr>", THEN conjunct1, THEN mp, OF h0]
  note b = zero_size_positions_excluded [where L = examplePositionsLib and c = exampleClient
        and filter' = None and positions = examplePositions,
        THEN conjunct2, THEN mp, OF h, THEN conjunct1, folded list_all_iff]
  show ?thesis using h0 a h b by (intro conjI)
qed

text \<open>
  Claim C6. The two sides are distinct; a position of non-zero size is never
  skipped for its direction string when no side filter is given; the side of
  a converted position is Long when the direction string is \<^verbatim>\<open>LONG\<close> and Short
  for every other string; and the sides of a result of \<^verbatim>\<open>GetPositions\<close> are
  obtained in this way from the decoded answer.
\<close>

theorem position_side_binary:
  "SideLong \<noteq> SideShort
   \<and> (positionOf L None pos = None \<longleftrightarrow> fst (ParseFloat L (PositionAmt pos)) = 0)
   \<and> (positionOf L filter' pos = Some p \<longrightarrow>
        Position.Side p = (if PositionData.PositionSide pos = ''LONG'' then SideLong else SideShort))
   \<and> (GetPositions L c filter' = Inr positions \<longrightarrow>
        (\<exists>response. (\<exists>body. UnmarshalPositionsResponse L body = Inr response)
           \<and> map Position.Side positions =
               map (\<lambda>pos. if PositionData.PositionSide pos = ''LONG'' then SideLong else SideShort)
                 (filter (\<lambda>pos. positionOf L filter' pos \<noteq> None)
                    (PositionsResponse.Data response))))"
proof (intro conjI impI)
  show "SideLong \<noteq> SideShort" by (simp add: SideLong_def SideShort_def)
  show "positionOf L None pos = None \<longleftrightarrow> fst (ParseFloat L (PositionAmt pos)) = 0"
    by (simp add: positionOf_None_iff)
next
  assume "positionOf L filter' pos = Some p"
  then show "Position.Side p = (if PositionData.PositionSide pos = ''LONG'' then SideLong else SideShort)"
    by (rule positionOf_Some_fields(3))
next
  assume "GetPositions L c filter' = Inr positions"
  then obtain body response where
    u: "UnmarshalPositionsResponse L body = Inr response" and
    o: "positions = positionsLoop L filter' (PositionsResponse.Data response)"
    using GetPositions_Inr by blast
  have s: "Position.Side (the (positionOf L None q)) =
          (if PositionData.PositionSide q = ''LONG'' then SideLong else SideShort)"
    if "positionOf L filter' q \<noteq> None" for q
  proof -
    from that obtain p' where "positionOf L filter' q = Some p'" by blast
    then show ?thesis
      using positionOf_filter_irrelevant positionOf_Some_fields(3) by fastforce
  qed
  have "map Position.Side positions =
               map (\<lambda>pos. if PositionData.PositionSide pos = ''LONG'' then SideLong else SideShort)
                 (filter (\<lambda>pos. positionOf L filter' pos \<noteq> None)
                    (PositionsResponse.Data response))"
    unfolding o positionsLoop_eq_map using s by (simp add: o_def)
  then show "\<exists>response. (\<exists>body. UnmarshalPositionsResponse L body = Inr response)
           \<and> map Position.Side positions =
               map (\<lambda>pos. if PositionData.PositionSide pos = ''LONG'' then SideLong else SideShort)
                 (filter (\<lambda>pos. positionOf L filter' pos \<noteq> None)
                    (PositionsResponse.Data response))"
    using u by blast
qed

theorem position_side_binary_witness:
  "positionOf exampleLib None examplePosition = Some exampleLong
   \<and> Position.Side exampleLong =
       (if PositionData.PositionSide examplePosition = ''LONG'' then SideLong else SideShort)
   \<and> GetPositions examplePositionsLib exampleClient None = Inr examplePositions
   \<and> (\<exists>response. (\<exists>body. UnmarshalPositionsResponse examplePositionsLib body = Inr response)
           \<and> map Position.Side examplePositions =
               map (\<lambda>pos. if PositionData.PositionSide pos = ''LONG'' then SideLong else SideShort)
                 (filter (\<lambda>pos. positionOf examplePositionsLib None pos \<noteq> None)
                    (PositionsResponse.Data response)))"
proof -
  have h0: "positionOf exampleLib None examplePosition = Some exampleLong"
    by (simp add: exampleLib_def Let_def GetPositions_def positionOf_def
        GetLeverageFloat_def GetLiquidationPriceFloat_def truncInt_def SideLong_def
        SideShort_def examplePosition_def exampleLong_def decimalParseFloat_def isDigit_def
        digitsValue_def)
  have h: "GetPositions examplePositionsLib exampleClient None = Inr examplePositions"
    by (simp add: makeRequest_def exampleLib_def exampleClient_def APISuccessCode_def
        Let_def NewBrokerError_def GetPositions_def positionOf_def GetLeverageFloat_def
        GetLiquidationPriceFloat_def truncInt_def SideLong_def SideShort_def
        examplePosition_def exampleLong_def decimalParseFloat_def isDigit_def
        digitsValue_def examplePositionsLib_def examplePositions_def)
  note a = position_side_binary [where L = exampleLib and filter' = None
        and pos = examplePosition and p = exampleLong,
        THEN conjunct2, THEN conjunct2, THEN conjunct1, THEN mp, OF h0]
  note b = position_side_binary [where L = examplePositionsLib and c = exampleClient
        and filter' = None and positions = examplePositions,
        THEN conjunct2, THEN conjunct2, THEN conjunct2, THEN mp, OF h]
  show ?thesis using h0 a h b by (intro conjI)
qed

lemma makeRequest_not_NotFound: "makeRequest L c m e ps \<noteq> Inl ErrPositionNotFound"
  by (simp add: makeRequest_def NewBrokerError_def split: http_outcome.splits)

lemma GetPositions_not_NotFound: "GetPositions L c f \<noteq> Inl ErrPositionNotFound"
  using makeRequest_not_NotFound
  by (auto simp add: GetPositions_def Let_def NewBrokerError_def split: sum.splits)

text \<open>
  Claim C8. \<^verbatim>\<open>GetPosition\<close> returns \<^verbatim>\<open>ErrPositionNotFound\<close> exactly when
  \<^verbatim>\<open>GetPositions\<close> with the symbol filter returns the empty list; when that list
  is not empty it returns its first element; and an error of \<^verbatim>\<open>GetPositions\<close>
  is passed on as it is and is never \<^verbatim>\<open>ErrPositionNotFound\<close>.
\<close>

theorem GetPosition_first_or_not_found:
  "(GetPosition L c symbol = Inl ErrPositionNotFound \<longleftrightarrow>
      GetPositions L c (Some \<lparr> PositionFilter.Symbol = symbol, PositionFilter.Side = None \<rparr>) = Inr [])
   \<and> (\<forall>p ps. GetPositions L c (Some \<lparr> PositionFilter.Symbol = symbol, PositionFilter.Side = None \<rparr>)
                 = Inr (p # ps) \<longrightarrow> GetPosition L c symbol = Inr p)
   \<and> (\<forall>err. GetPositions L c (Some \<lparr> PositionFilter.Symbol = symbol, PositionFilter.Side = None \<rparr>)
                 = Inl err \<longrightarrow> GetPosition L c symbol = Inl err \<and> err \<noteq> ErrPositionNotFound)"
  using GetPositions_not_NotFound [of L c "Some \<lparr> PositionFilter.Symbol = symbol, PositionFilter.Side = None \<rparr>"]
  by (auto simp add: GetPosition_def Let_def split: sum.splits)

theorem GetPosition_first_or_not_found_witness:
  "GetPositions noPositionsLib exampleClient
      (Some \<lparr> PositionFilter.Symbol = ''BTC-USDT'', PositionFilter.Side = None \<rparr>) = Inr []
   \<and> GetPosition noPositionsLib exampleClient ''BTC-USDT'' = Inl ErrPositionNotFound
   \<and> GetPositions examplePositionsLib exampleClient
      (Some \<lparr> PositionFilter.Symbol = ''BTC-USDT'', PositionFilter.Side = None \<rparr>)
        = Inr (exampleLong # tl examplePositions)
   \<and> GetPosition examplePositionsLib exampleClient ''BTC-USDT'' = Inr exampleLong"
proof -
  have h0: "GetPositions noPositionsLib exampleClient
      (Some \<lparr> PositionFilter.Symbol = ''BTC-USDT'', PositionFilter.Side = None \<rparr>) = Inr []"
    by (simp add: makeRequest_def exampleLib_def exampleClient_def APISuccessCode_def
        Let_def NewBrokerError_def GetPositions_def positionOf_def GetLeverageFloat_def
        GetLiquidationPriceFloat_def truncInt_def SideLong_def SideShort_def
        examplePosition_def exampleLong_def decimalParseFloat_def isDigit_def
        digitsValue_def noPositionsLib_def)
  have h: "GetPositions examplePositionsLib exampleClient
      (Some \<lparr> PositionFilter.Symbol = ''BTC-USDT'', PositionFilter.Side = None \<rparr>)
        = Inr (exampleLong # tl examplePositions)"
    by (simp add: makeRequest_def exampleLib_def exampleClient_def APISuccessCode_def
        Let_def NewBrokerError_def GetPositions_def positionOf_def GetLeverageFloat_def
        GetLiquidationPriceFloat_def truncInt_def SideLong_def SideShort_def
        examplePosition_def exampleLong_def decimalParseFloat_def isDigit_def
        digitsValue_def examplePositionsLib_def examplePositions_def)
  note a = GetPosition_first_or_not_found [where L = noPositionsLib and c = exampleClient
        and symbol = "''BTC-USDT''", THEN conjunct1, THEN iffD2, OF h0]
  note b = GetPosition_first_or_not_found [where L = examplePositionsLib and c = exampleClient
        and symbol = "''BTC-USDT''", THEN conjunct2, THEN conjunct1,
        THEN spec [where x = exampleLong], THEN spec [where x = "tl examplePositions"],
        THEN mp, OF h]
  show ?thesis using h0 a h b by (intro conjI)
qed

subsection \<open>Balance\<close>

lemma makeRequest_not_NoData:
  "makeRequest L c m e ps \<noteq> Inl (BrokerError b ''NO_DATA'' msg err)"
  by (simp add: makeRequest_def NewBrokerError_def split: http_outcome.splits)

text \<open>
  Claim C9. \<^verbatim>\<open>GetBalance\<close> fails with the code \<^verbatim>\<open>NO_DATA\<close> exactly when the request
  succeeded, the body decoded, the envelope's code is the success code and its
  list of balance entries is empty. A transport failure, a decode failure and
  a non-zero envelope code therefore all give a different error.
\<close>

theorem GetBalance_no_data:
  "(\<exists>broker message err. GetBalance L c = Inl (BrokerError broker ''NO_DATA'' message err)) \<longleftrightarrow>
   (\<exists>body response. makeRequest L c ''GET'' EndpointBalance [] = Inr body
        \<and> UnmarshalBalanceResponse L body = Inr response
        \<and> BalanceResponse.Code response = 0
        \<and> BalanceResponse.Data response = [])"
  using makeRequest_not_NoData [of L c "''GET''" EndpointBalance "[]"]
  by (auto simp add: GetBalance_def Let_def NewBrokerError_def APISuccessCode_def split: sum.splits)

theorem GetBalance_no_data_witness:
  "(\<exists>body response. makeRequest emptyBalanceLib exampleClient ''GET'' EndpointBalance [] = Inr body
        \<and> UnmarshalBalanceResponse emptyBalanceLib body = Inr response
        \<and> BalanceResponse.Code response = 0
        \<and> BalanceResponse.Data response = [])
   \<and> (\<exists>broker message err.
         GetBalance emptyBalanceLib exampleClient = Inl (BrokerError broker ''NO_DATA'' message err))"
proof -
  have m: "makeRequest emptyBalanceLib exampleClient ''GET'' EndpointBalance [] = Inr ''{}''"
    by (simp add: makeRequest_def emptyBalanceLib_def exampleLib_def)
  have u: "UnmarshalBalanceResponse emptyBalanceLib ''{}'' =
             Inr \<lparr> BalanceResponse.Code = 0, BalanceResponse.Data = [], BalanceResponse.Msg = [] \<rparr>"
    by (simp add: emptyBalanceLib_def exampleLib_def)
  have h: "\<exists>body response. makeRequest emptyBalanceLib exampleClient ''GET'' EndpointBalance [] = Inr body
        \<and> UnmarshalBalanceResponse emptyBalanceLib body = Inr response
        \<and> BalanceResponse.Code response = 0
        \<and> BalanceResponse.Data response = []"
    by (rule exI [where x = "''{}''"], rule exI, intro conjI, rule m, rule u) simp_all
  show ?thesis
    using h GetBalance_no_data [where L = emptyBalanceLib and c = exampleClient, THEN iffD2, OF h]
    by (rule conjI)
qed

subsection \<open>The string-or-number decoders\<close>

text \<open>
  Claim C1, as amended. \<^verbatim>\<open>GetLeverageFloat\<close> hands a JSON string to
  \<^verbatim>\<open>strconv.ParseFloat\<close> as it is, the empty string included, and JSON null as
  the empty string; \<^verbatim>\<open>GetLiquidationPriceFloat\<close> succeeds with 0 on the empty
  string and on JSON null and hands every other string to \<^verbatim>\<open>strconv.ParseFloat\<close>.
  On a JSON number both succeed with the value \<^verbatim>\<open>strconv.ParseFloat\<close> gives for
  the text of the number when that call reports no error, and fail, with the
  value 0, when it reports one (a number that does not fit a float64). Both
  fail, with the value 0, on a boolean, an array, an object and on bytes that
  are no JSON value.
\<close>

theorem decoder_by_shape:
  "(PositionData.Leverage p = Some (JString s) \<longrightarrow> GetLeverageFloat L p = ParseFloat L s)
   \<and> (PositionData.Leverage p = Some JNull \<longrightarrow> GetLeverageFloat L p = ParseFloat L [])
   \<and> (PositionData.Leverage p = Some (JNumber item) \<and> snd (ParseFloat L item) = None \<longrightarrow>
        GetLeverageFloat L p = (fst (ParseFloat L item), None))
   \<and> (PositionData.Leverage p = Some (JNumber item) \<and> snd (ParseFloat L item) \<noteq> None \<longrightarrow>
        fst (GetLeverageFloat L p) = 0 \<and> snd (GetLeverageFloat L p) \<noteq> None)
   \<and> (PositionData.Leverage p \<in> {None, Some (JBool b), Some (JArray xs), Some (JObject kvs)} \<longrightarrow>
        fst (GetLeverageFloat L p) = 0 \<and> snd (GetLeverageFloat L p) \<noteq> None)
   \<and> (PositionData.LiquidationPrice p = Some (JString []) \<or> PositionData.LiquidationPrice p = Some JNull \<longrightarrow>
        GetLiquidationPriceFloat L p = (0, None))
   \<and> (PositionData.LiquidationPrice p = Some (JString s) \<and> s \<noteq> [] \<longrightarrow>
        GetLiquidationPriceFloat L p = ParseFloat L s)
   \<and> (PositionData.LiquidationPrice p = Some (JNumber item) \<and> snd (ParseFloat L item) = None \<longrightarrow>
        GetLiquidationPriceFloat L p = (fst (ParseFloat L item), None))
   \<and> (PositionData.LiquidationPrice p = Some (JNumber item) \<and> snd (ParseFloat L item) \<noteq> None \<longrightarrow>
        fst (GetLiquidationPriceFloat L p) = 0 \<and> snd (GetLiquidationPriceFloat L p) \<noteq> None)
   \<and> (PositionData.LiquidationPrice p \<in> {None, Some (JBool b), Some (JArray xs), Some (JObject kvs)} \<longrightarrow>
        fst (GetLiquidationPriceFloat L p) = 0 \<and> snd (GetLiquidationPriceFloat L p) \<noteq> None)"
  by (auto simp add: GetLeverageFloat_def GetLiquidationPriceFloat_def split: prod.splits option.splits)

theorem decoder_by_shape_witness:
  "GetLeverageFloat exampleLib examplePosition = (10, None)
   \<and> GetLeverageFloat exampleLib (examplePosition \<lparr> PositionData.Leverage := Some JNull \<rparr>)
       = (0, Some (LibError ''strconv.ParseFloat: invalid syntax''))
   \<and> GetLeverageFloat exampleLib (examplePosition \<lparr> PositionData.Leverage := Some (JNumber ''25'') \<rparr>)
       = (25, None)
   \<and> snd (GetLeverageFloat scientificLib
         (examplePosition \<lparr> PositionData.Leverage := Some (JNumber ''1e400'') \<rparr>)) \<noteq> None
   \<and> snd (GetLeverageFloat exampleLib (examplePosition \<lparr> PositionData.Leverage := Some (JBool True) \<rparr>))
       \<noteq> None
   \<and> GetLiquidationPriceFloat exampleLib
         (examplePosition \<lparr> PositionData.LiquidationPrice := Some JNull \<rparr>) = (0, None)
   \<and> GetLiquidationPriceFloat exampleLib examplePosition = (84001 / 2, None)
   \<and> GetLiquidationPriceFloat exampleLib
         (examplePosition \<lparr> PositionData.LiquidationPrice := Some (JNumber ''3200.0'') \<rparr>) = (3200, None)
   \<and> snd (GetLiquidationPriceFloat scientificLib
         (examplePosition \<lparr> PositionData.LiquidationPrice := Some (JNumber ''1e400'') \<rparr>)) \<noteq> None
   \<and> snd (GetLiquidationPriceFloat exampleLib
         (examplePosition \<lparr> PositionData.LiquidationPrice := Some (JBool False) \<rparr>)) \<noteq> None"
proof -
  have p10: "ParseFloat exampleLib ''10'' = (10, None)"
    and p0: "ParseFloat exampleLib [] = (0, Some (LibError ''strconv.ParseFloat: invalid syntax''))"
    and pl: "ParseFloat exampleLib ''42000.50'' = (84001 / 2, None)"
    and p25: "ParseFloat exampleLib ''25'' = (25, None)"
    and p32: "ParseFloat exampleLib ''3200.0'' = (3200, None)"
    by (simp_all add: exampleLib_def decimalParseFloat_def isDigit_def digitsValue_def)
  have pr: "ParseFloat scientificLib ''1e400'' =
               (0, Some (LibError ''strconv.ParseFloat: value out of range''))"
    by (simp add: scientificLib_def exampleLib_def scientificParseFloat_def notExponentMark_def
        decimalParseFloat_def isDigit_def digitsValue_def)
  have l1: "PositionData.Leverage examplePosition = Some (JString ''10'')"
    and l2: "PositionData.LiquidationPrice examplePosition = Some (JString ''42000.50'') \<and> ''42000.50'' \<noteq> []"
    by (simp_all add: examplePosition_def)
  note t = decoder_by_shape [where L = exampleLib]
  have c1: "GetLeverageFloat exampleLib examplePosition = (10, None)"
    using t [where p = examplePosition and s = "''10''", THEN conjunct1, THEN mp, OF l1] p10 by simp
  have c2: "GetLeverageFloat exampleLib (examplePosition \<lparr> PositionData.Leverage := Some JNull \<rparr>)
       = (0, Some (LibError ''strconv.ParseFloat: invalid syntax''))"
    using t [where p = "examplePosition \<lparr> PositionData.Leverage := Some JNull \<rparr>",
        THEN conjunct2, THEN conjunct1, THEN mp] p0 by simp
  have c3: "GetLeverageFloat exampleLib (examplePosition \<lparr> PositionData.Leverage := Some (JNumber ''25'') \<rparr>)
       = (25, None)"
    using t [where p = "examplePosition \<lparr> PositionData.Leverage := Some (JNumber ''25'') \<rparr>"
        and item = "''25''",
        THEN conjunct2, THEN conjunct2, THEN conjunct1, THEN mp] p25 by simp
  have c3r: "snd (GetLeverageFloat scientificLib
         (examplePosition \<lparr> PositionData.Leverage := Some (JNumber ''1e400'') \<rparr>)) \<noteq> None"
    using decoder_by_shape [where L = scientificLib
        and p = "examplePosition \<lparr> PositionData.Leverage := Some (JNumber ''1e400'') \<rparr>"
        and item = "''1e400''",
        THEN conjunct2, THEN conjunct2, THEN conjunct2, THEN conjunct1, THEN mp] pr by simp
  have c4: "snd (GetLeverageFloat exampleLib (examplePosition \<lparr> PositionData.Leverage := Some (JBool True) \<rparr>))
       \<noteq> None"
    using t [where p = "examplePosition \<lparr> PositionData.Leverage := Some (JBool True) \<rparr>" and b = True,
        THEN conjunct2, THEN conjunct2, THEN conjunct2, THEN conjunct2, THEN conjunct1, THEN mp] by simp
  have c5: "GetLiquidationPriceFloat exampleLib
         (examplePosition \<lparr> PositionData.LiquidationPrice := Some JNull \<rparr>) = (0, None)"
    using t [where p = "examplePosition \<lparr> PositionData.LiquidationPrice := Some JNull \<rparr>",
        THEN conjunct2, THEN conjunct2, THEN conjunct2, THEN conjunct2, THEN conjunct2,
        THEN conjunct1, THEN mp] by simp
  have c6: "GetLiquidationPriceFloat exampleLib examplePosition = (84001 / 2, None)"
    using t [where p = examplePosition and s = "''42000.50''",
        THEN conjunct2, THEN conjunct2, THEN conjunct2, THEN conjunct2, THEN conjunct2,
        THEN conjunct2, THEN conjunct1, THEN mp, OF l2] pl by simp
  have c7: "GetLiquidationPriceFloat exampleLib
         (examplePosition \<lparr> PositionData.LiquidationPrice := Some (JNumber ''3200.0'') \<rparr>) = (3200, None)"
    using t [where p = "examplePosition \<lparr> PositionData.LiquidationPrice := Some (JNumber ''3200.0'') \<rparr>"
        and item = "''3200.0''",
        THEN conjunct2, THEN conjunct2, THEN conjunct2, THEN conjunct2, THEN conjunct2,
        THEN conjunct2, THEN conjunct2, THEN conjunct1, THEN mp] p32 by simp
  have c7r: "snd (GetLiquidationPriceFloat scientificLib
         (examplePosition \<lparr> PositionData.LiquidationPrice := Some (JNumber ''1e400'') \<rparr>)) \<noteq> None"
    using decoder_by_shape [where L = scientificLib
        and p = "examplePosition \<lparr> PositionData.LiquidationPrice := Some (JNumber ''1e400'') \<rparr>"
        and item = "''1e400''",
        THEN conjunct2, THEN conjunct2, THEN conjunct2, THEN conjunct2, THEN conjunct2,
        THEN conjunct2, THEN conjunct2, THEN conjunct2, THEN conjunct1, THEN mp] pr by simp
  have c8: "snd (GetLiquidationPriceFloat exampleLib
         (examplePosition \<lparr> PositionData.LiquidationPrice := Some (JBool False) \<rparr>)) \<noteq> None"
    using t [where p = "examplePosition \<lparr> PositionData.LiquidationPrice := Some (JBool False) \<rparr>"
        and b = False,
        THEN conjunct2, THEN conjunct2, THEN conjunct2, THEN conjunct2, THEN conjunct2,
        THEN conjunct2, THEN conjunct2, THEN conjunct2, THEN conjunct2, THEN mp] by simp
  show ?thesis using c1 c2 c3 c3r c4 c5 c6 c7 c7r c8 by (intro conjI)
qed

text \<open>
  Claim C1 as stated fails: JSON null is not an error for the liquidation
  price (it gives 0), the empty string is an error for the leverage, and a
  JSON number outside the range of float64 is an error.
\<close>

theorem decoder_counterexample:
  "GetLiquidationPriceFloat exampleLib (examplePosition \<lparr> PositionData.LiquidationPrice := Some JNull \<rparr>)
     = (0, None)
   \<and> GetLeverageFloat exampleLib (examplePosition \<lparr> PositionData.Leverage := Some (JString []) \<rparr>)
     = (0, Some (LibError ''strconv.ParseFloat: invalid syntax''))
   \<and> GetLeverageFloat scientificLib
         (examplePosition \<lparr> PositionData.Leverage := Some (JNumber ''1e400'') \<rparr>)
     = (0, Some (Errorf ''unable to parse leverage: '' (Some (JNumber ''1e400''))))"
  by (simp add: scientificLib_def exampleLib_def examplePosition_def GetLeverageFloat_def
      GetLiquidationPriceFloat_def scientificParseFloat_def notExponentMark_def
      decimalParseFloat_def isDigit_def digitsValue_def)

subsection \<open>Numeric fields that do not parse\<close>

text \<open>
  Claim C2 at concrete answers of the exchange: with a leverage and an average
  price that are no numerals, \<^verbatim>\<open>GetPositions\<close> succeeds and reports leverage 0 and
  entry price 0; with an equity that is no numeral, \<^verbatim>\<open>GetBalance\<close> succeeds and
  reports a total of 0; with a quantity and a price that are no numerals,
  \<^verbatim>\<open>GetOrders\<close> and \<^verbatim>\<open>PlaceOrder\<close> succeed and report size 0 and price 0.
\<close>

theorem parse_failures_become_zero:
  "snd (ParseFloat exampleLib ''abc'') \<noteq> None
   \<and> snd (GetLeverageFloat exampleLib
            (examplePosition \<lparr> PositionData.Leverage := Some (JString ''abc''),
                              PositionData.AvgPrice := ''abc'' \<rparr>)) \<noteq> None
   \<and> GetPositions badPositionsLib exampleClient None =
       Inr [exampleLong \<lparr> EntryPrice := 0, Position.Leverage := 0 \<rparr>]
   \<and> GetBalance badBalanceLib exampleClient =
       Inr \<lparr> Balance.Asset = ''USDT'', Total = 0, Available = 950, InUse = 100,
             Balance.UnrealizedPnL = 50, Balance.RealizedPnL = 100,
             Balance.Timestamp = 1700000000000 \<rparr>
   \<and> GetOrders badOrdersLib exampleClient None =
       Inr [examplePendingOrder \<lparr> Order.Size := 0, Order.StopPrice := 0 \<rparr>]
   \<and> PlaceOrder badOrderLib exampleClient exampleOrderRequest =
       Inr \<lparr> ID = ''8'', Order.ClientOrderID = [], Order.Symbol = ''BTC-USDT'',
             Order.Side = ''LONG'', Order.Type = ''LIMIT'', Order.Status = ''NEW'',
             Order.Size = 0, Order.Price = 0, Order.StopPrice = 0, FilledSize = 0,
             AveragePrice = 0, Order.ReduceOnly = False, Order.TimeInForce = [],
             CreatedAt = 1700000000000, UpdatedAt = 1700000000000 \<rparr>"
  by (simp add: makeRequest_def exampleLib_def exampleClient_def APISuccessCode_def Let_def
      NewBrokerError_def GetOrders_def orderOf_def mapBingXStatus_def triggerTypes_def
      isReduceOnly_def Unix_def signed_divide_int_def SideLong_def SideShort_def itoa_def
      natDigits.simps digitChar_def exampleOpenOrder_def examplePendingOrder_def
      GetPositions_def positionOf_def GetLeverageFloat_def GetLiquidationPriceFloat_def
      truncInt_def SideLong_def SideShort_def examplePosition_def exampleLong_def
      decimalParseFloat_def isDigit_def digitsValue_def GetBalance_def PlaceOrder_def
      placeOrderParams_def badPositionsLib_def badBalanceLib_def badOrdersLib_def
      badOrderLib_def exampleOrderRequest_def exampleBalanceData_def)

text \<open>
  The order acknowledgement of the previous theorem on its own: the request
  carries no stop-loss and no take-profit, so it goes through \<^verbatim>\<open>makeRequest\<close>.
\<close>

theorem parse_failures_become_zero_witness:
  "StopLoss exampleOrderRequest = None \<and> TakeProfit exampleOrderRequest = None
   \<and> PlaceOrder badOrderLib exampleClient exampleOrderRequest =
       Inr \<lparr> ID = ''8'', Order.ClientOrderID = [], Order.Symbol = ''BTC-USDT'',
             Order.Side = ''LONG'', Order.Type = ''LIMIT'', Order.Status = ''NEW'',
             Order.Size = 0, Order.Price = 0, Order.StopPrice = 0, FilledSize = 0,
             AveragePrice = 0, Order.ReduceOnly = False, Order.TimeInForce = [],
             CreatedAt = 1700000000000, UpdatedAt = 1700000000000 \<rparr>"
proof -
  have h: "StopLoss exampleOrderRequest = None \<and> TakeProfit exampleOrderRequest = None"
    by (simp add: exampleOrderRequest_def)
  note t = parse_failures_become_zero [THEN conjunct2, THEN conjunct2, THEN conjunct2,
      THEN conjunct2, THEN conjunct2]
  show ?thesis by (rule conjI [OF conjunct1 [OF h] conjI [OF conjunct2 [OF h] t]])
qed

subsection \<open>Request signing\<close>

lemma of_char_less_256: "of_char c < (256::nat)"
  by (cases c) simp

lemma upperhex_nth_mem: "i < 16 \<Longrightarrow> upperhex ! i \<in> set upperhex"
  by (rule nth_mem) (simp add: upperhex_def)

lemma hi_lt: "(of_char c :: nat) div 16 < 16"
  using of_char_less_256 [of c] by (simp add: less_mult_imp_div_less)

lemma lo_lt: "(of_char c :: nat) mod 16 < 16"
  by simp

lemma unreserved_not_special:
  "\<not> shouldEscape c \<Longrightarrow> c \<noteq> CHR ''&'' \<and> c \<noteq> CHR ''='' \<and> c \<noteq> CHR ''+'' \<and> c \<noteq> CHR ''%''"
  by (auto simp add: shouldEscape_def)

lemma escapeByte_no_sep:
  "CHR ''&'' \<notin> set (escapeByte c) \<and> CHR ''='' \<notin> set (escapeByte c)"
proof (cases "shouldEscape c")
  case False
  then show ?thesis using unreserved_not_special [of c] by (auto simp add: escapeByte_def)
next
  case True
  have "upperhex ! (of_char c div 16) \<in> set upperhex" "upperhex ! (of_char c mod 16) \<in> set upperhex"
    using hi_lt lo_lt upperhex_nth_mem by blast+
  moreover have "CHR ''&'' \<notin> set upperhex" "CHR ''='' \<notin> set upperhex"
    by (simp_all add: upperhex_def)
  ultimately show ?thesis using True by (auto simp add: escapeByte_def)
qed

lemma QueryEscape_no_sep:
  "CHR ''&'' \<notin> set (QueryEscape s) \<and> CHR ''='' \<notin> set (QueryEscape s)"
  using escapeByte_no_sep by (induction s) (auto simp add: QueryEscape_def)

lemma upperhex_inj: "i < 16 \<Longrightarrow> j < 16 \<Longrightarrow> upperhex ! i = upperhex ! j \<Longrightarrow> i = j"
proof -
  have d: "distinct upperhex" by (simp add: upperhex_def)
  have l: "length upperhex = 16" by (simp add: upperhex_def)
  show "i < 16 \<Longrightarrow> j < 16 \<Longrightarrow> upperhex ! i = upperhex ! j \<Longrightarrow> i = j"
    using d l by (simp add: nth_eq_iff_index_eq)
qed

lemma upperhex_no_special: "i < 16 \<Longrightarrow> upperhex ! i \<noteq> CHR ''%'' \<and> upperhex ! i \<noteq> CHR ''+''"
proof -
  assume "i < 16"
  then have "upperhex ! i \<in> set upperhex" by (rule upperhex_nth_mem)
  moreover have "CHR ''%'' \<notin> set upperhex" "CHR ''+'' \<notin> set upperhex"
    by (simp_all add: upperhex_def)
  ultimately show ?thesis by metis
qed

lemma escapeByte_prefix_free:
  assumes "escapeByte a @ r = escapeByte b @ r'"
  shows "a = b \<and> r = r'"
proof -
  have pct: "a = b" if e: "upperhex ! (of_char a div 16) = upperhex ! (of_char b div 16)"
      "upperhex ! (of_char a mod 16) = upperhex ! (of_char b mod 16)"
  proof -
    have "(of_char a :: nat) div 16 = of_char b div 16"
      using e(1) hi_lt upperhex_inj by blast
    moreover have "(of_char a :: nat) mod 16 = of_char b mod 16"
      using e(2) lo_lt upperhex_inj by blast
    ultimately have "(of_char a :: nat) = of_char b"
      by (metis div_mult_mod_eq)
    then show ?thesis by simp
  qed
  consider (uu) "\<not> shouldEscape a" "\<not> shouldEscape b"
    | (ue) "\<not> shouldEscape a" "shouldEscape b"
    | (eu) "shouldEscape a" "\<not> shouldEscape b"
    | (ee) "shouldEscape a" "shouldEscape b" by blast
  then show ?thesis
  proof cases
    case uu
    then show ?thesis using assms by (simp add: escapeByte_def)
  next
    case ue
    then show ?thesis using assms unreserved_not_special [of a]
      by (auto simp add: escapeByte_def split: if_splits)
  next
    case eu
    then show ?thesis using assms unreserved_not_special [of b]
      by (auto simp add: escapeByte_def split: if_splits)
  next
    case ee
    then show ?thesis using assms pct
      by (auto simp add: escapeByte_def split: if_splits)
  qed
qed

lemma QueryEscape_inj: "QueryEscape s = QueryEscape t \<Longrightarrow> s = t"
proof (induction s arbitrary: t)
  case Nil
  then show ?case by (cases t) (auto simp add: QueryEscape_def escapeByte_def split: if_splits)
next
  case (Cons a s)
  show ?case
  proof (cases t)
    case Nil
    then show ?thesis using Cons.prems
      by (auto simp add: QueryEscape_def escapeByte_def split: if_splits)
  next
    case (Cons b t')
    then have "escapeByte a @ QueryEscape s = escapeByte b @ QueryEscape t'"
      using Cons.prems by (simp add: QueryEscape_def)
    then have "a = b \<and> QueryEscape s = QueryEscape t'" by (rule escapeByte_prefix_free)
    then show ?thesis using Cons.IH Cons by simp
  qed
qed

lemma values_map_of:
  "distinct (map fst ps) \<Longrightarrow>
   map_of (foldl (\<lambda>values (key, val). Set values key val) acc ps) k =
     (case map_of ps k of Some v \<Rightarrow> Some [v] | None \<Rightarrow> map_of acc k)"
proof (induction ps arbitrary: acc)
  case Nil
  show ?case by simp
next
  case (Cons kv ps)
  obtain k0 v0 where kv: "kv = (k0, v0)" by (cases kv)
  have d: "distinct (map fst ps)" and n: "k0 \<notin> fst ` set ps" using Cons.prems kv by auto
  have none: "map_of ps k0 = None" using n by (simp add: map_of_eq_None_iff)
  show ?case
    using Cons.IH [OF d, of "Set acc k0 v0"] none
    by (simp add: kv Set_def update_conv' split: option.splits)
qed

lemma values_distinct:
  "distinct (map fst acc) \<Longrightarrow>
   distinct (map fst (foldl (\<lambda>values (key, val). Set values key val) acc ps))"
proof (induction ps arbitrary: acc)
  case Nil
  then show ?case by simp
next
  case (Cons kv ps)
  obtain k0 v0 where kv: "kv = (k0, v0)" by (cases kv)
  have "distinct (map fst (Set acc k0 v0))"
    using Cons.prems by (simp add: Set_def distinct_update)
  then show ?case using Cons.IH kv by simp
qed

lemma values_keys:
  assumes "distinct (map fst ps)"
  shows "set (map fst (foldl (\<lambda>values (key, val). Set values key val) [] ps)) = set (map fst ps)"
proof -
  let ?v = "foldl (\<lambda>values (key, val). Set values key val) [] ps"
  have "dom (map_of ?v) = dom (map_of ps)"
    by (auto simp add: values_map_of [OF assms] dom_def split: option.splits)
  then show ?thesis by (simp add: dom_map_of_conv_image_fst)
qed

lemma Encode_ext:
  assumes "distinct (map fst v)" and "distinct (map fst w)" and "map_of v = map_of w"
  shows "Encode v = Encode w"
proof -
  have s: "fst ` set v = fst ` set w"
    using assms(3) by (metis dom_map_of_conv_image_fst)
  have "sort (map fst v) = sort (map fst w)"
    by (rule sorted_distinct_set_unique) (simp_all add: assms(1,2) s)
  moreover have "v = [] \<longleftrightarrow> w = []" using s by auto
  ultimately show ?thesis using assms(3) by (simp add: Encode_def)
qed

lemma canonicalQuery_order_independent:
  assumes "distinct (map fst ps)" and "distinct (map fst ps')" and "map_of ps = map_of ps'"
  shows "canonicalQuery ps = canonicalQuery ps'"
proof -
  let ?v = "foldl (\<lambda>values (key, val). Set values key val) [] ps"
  let ?w = "foldl (\<lambda>values (key, val). Set values key val) [] ps'"
  have "map_of ?v = map_of ?w"
    by (rule ext) (simp add: values_map_of [OF assms(1)] values_map_of [OF assms(2)] assms(3))
  have "distinct (map fst ?v)" "distinct (map fst ?w)"
    by (simp_all add: values_distinct)
  have "Encode ?v = Encode ?w"
    by (rule Encode_ext) fact+
  then show ?thesis by (simp add: canonicalQuery_def)
qed

lemma last_split:
  "c \<notin> set a \<Longrightarrow> c \<notin> set b \<Longrightarrow> p @ c # a = q @ c # b \<Longrightarrow> p = q \<and> a = b"
proof (induction p arbitrary: q)
  case Nil
  then show ?case by (cases q) auto
next
  case (Cons x p)
  show ?case
  proof (cases q)
    case Nil
    then show ?thesis using Cons.prems by auto
  next
    case (Cons y q')
    then show ?thesis using Cons.prems Cons.IH [of q'] by auto
  qed
qed

lemma amp_prefix_inj:
  "(if length B > 0 then B @ ''&'' else B) = (if length B' > 0 then B' @ ''&'' else B') \<Longrightarrow> B = B'"
  by (cases "B = []"; cases "B' = []") simp_all

lemma writePair_inj:
  assumes "writePair (QueryEscape k) B x = writePair (QueryEscape k) B' x'"
  shows "B = B' \<and> x = x'"
proof -
  let ?P = "\<lambda>B. (if length B > 0 then B @ ''&'' else B) @ QueryEscape k"
  have e: "?P B @ CHR ''='' # QueryEscape x = ?P B' @ CHR ''='' # QueryEscape x'"
    using assms by (simp add: writePair_def)
  have n1: "CHR ''='' \<notin> set (QueryEscape x)" and n2: "CHR ''='' \<notin> set (QueryEscape x')"
    by (simp_all add: QueryEscape_no_sep)
  have r: "?P B = ?P B' \<and> QueryEscape x = QueryEscape x'"
    by (rule last_split [OF n1 n2 e])
  from r have "QueryEscape x = QueryEscape x'" by (rule conjunct2)
  then have "x = x'" by (rule QueryEscape_inj)
  moreover from r have "?P B = ?P B'" by (rule conjunct1)
  then have "(if length B > 0 then B @ ''&'' else B) = (if length B' > 0 then B' @ ''&'' else B')"
    by (simp only: append_same_eq)
  then have "B = B'" by (rule amp_prefix_inj)
  ultimately show ?thesis by (rule conjI [rotated])
qed

lemma pairs_fold_inj:
  "foldl (\<lambda>buf k. writePair (QueryEscape k) buf (f k)) buf ks =
   foldl (\<lambda>buf k. writePair (QueryEscape k) buf (g k)) buf ks \<Longrightarrow>
   \<forall>k \<in> set ks. f k = g k"
proof (induction ks rule: rev_induct)
  case Nil
  show ?case by simp
next
  case (snoc k ks)
  from snoc.prems
  have "writePair (QueryEscape k) (foldl (\<lambda>buf k. writePair (QueryEscape k) buf (f k)) buf ks) (f k) =
        writePair (QueryEscape k) (foldl (\<lambda>buf k. writePair (QueryEscape k) buf (g k)) buf ks) (g k)"
    by simp
  then have "foldl (\<lambda>buf k. writePair (QueryEscape k) buf (f k)) buf ks =
        foldl (\<lambda>buf k. writePair (QueryEscape k) buf (g k)) buf ks \<and> f k = g k"
    by (rule writePair_inj)
  then show ?case using snoc.IH by auto
qed

lemma Encode_single_valued:
  assumes "distinct (map fst ps)" and "ps \<noteq> []"
  shows "canonicalQuery ps =
     foldl (\<lambda>buf k. writePair (QueryEscape k) buf (the (map_of ps k))) [] (sort (map fst ps))"
proof -
  let ?v = "foldl (\<lambda>values (key, val). Set values key val) [] ps"
  have k: "sort (map fst ?v) = sort (map fst ps)"
    by (rule sorted_distinct_set_unique)
       (simp_all add: values_distinct assms(1) values_keys [OF assms(1), simplified])
  have ne: "?v \<noteq> []" using values_keys [OF assms(1)] assms(2) by auto
  have "foldl (\<lambda>buf k. foldl (writePair (QueryEscape k)) buf
                 (case map_of ?v k of Some vs \<Rightarrow> vs | None \<Rightarrow> [])) [] (sort (map fst ps)) =
        foldl (\<lambda>buf k. writePair (QueryEscape k) buf (the (map_of ps k))) [] (sort (map fst ps))"
  proof (rule foldl_cong [OF refl refl])
    fix a x assume "x \<in> set (sort (map fst ps))"
    then have "x \<in> fst ` set ps" by simp
    then obtain y where "map_of ps x = Some y"
      by (metis weak_map_of_SomeI imageE prod.collapse)
    then show "foldl (writePair (QueryEscape x)) a
                 (case map_of ?v x of Some vs \<Rightarrow> vs | None \<Rightarrow> []) =
               writePair (QueryEscape x) a (the (map_of ps x))"
      by (simp add: values_map_of [OF assms(1)])
  qed
  then show ?thesis using k ne by (simp add: canonicalQuery_def Encode_def)
qed

lemma canonicalQuery_value_sensitive:
  assumes d: "distinct (map fst ps)" and m: "(k, v) \<in> set ps" and ne: "v' \<noteq> v"
  shows "canonicalQuery (AList.update k v' ps) \<noteq> canonicalQuery ps"
proof
  let ?ps' = "AList.update k v' ps"
  assume eq: "canonicalQuery ?ps' = canonicalQuery ps"
  have kin: "k \<in> set (map fst ps)" using m by force
  have d': "distinct (map fst ?ps')" using d by (rule distinct_update)
  have keys: "map fst ?ps' = map fst ps" using kin by (simp add: update_keys)
  have ne0: "ps \<noteq> []" "?ps' \<noteq> []" using m keys by auto
  have "foldl (\<lambda>buf k. writePair (QueryEscape k) buf (the (map_of ?ps' k))) [] (sort (map fst ps)) =
        foldl (\<lambda>buf k. writePair (QueryEscape k) buf (the (map_of ps k))) [] (sort (map fst ps))"
    using eq Encode_single_valued [OF d ne0(1)] Encode_single_valued [OF d' ne0(2)] keys by simp
  then have "\<forall>x \<in> set (sort (map fst ps)). the (map_of ?ps' x) = the (map_of ps x)"
    by (rule pairs_fold_inj)
  then have "the (map_of ?ps' k) = the (map_of ps k)" using kin by (simp del: set_map)
  moreover have "map_of ps k = Some v" using d m by simp
  ultimately show False using ne by (simp add: update_conv')
qed

lemma hextable_nth_mem: "i < 16 \<Longrightarrow> hextable ! i \<in> set hextable"
  by (rule nth_mem) (simp add: hextable_def)

lemma EncodeToString_lowercase_hex:
  "set (EncodeToString d) \<subseteq> set ''0123456789abcdef'' \<and> length (EncodeToString d) = 2 * length d"
proof (induction d)
  case Nil
  show ?case by (simp add: EncodeToString_def)
next
  case (Cons c d)
  have "hextable ! (of_char c div 16) \<in> set hextable" "hextable ! (of_char c mod 16) \<in> set hextable"
    using hi_lt lo_lt hextable_nth_mem by blast+
  then show ?case using Cons.IH
    by (simp add: EncodeToString_def hexEncodeByte_def hextable_def)
qed

text \<open>
  Claim C5. Two parameter maps with the same entries, visited in whatever
  order, give the same canonical query string, hence the same signature and
  the same URL; changing the value of one parameter changes the canonical
  string; the URL is the canonical string of the parameters with the timestamp,
  followed by the signature parameter, which is computed from that string and
  appended after it; and the signature consists of lowercase hexadecimal
  digits.
\<close>

theorem signing_deterministic:
  "(distinct (map fst ps) \<and> distinct (map fst ps') \<and> map_of ps = map_of ps' \<longrightarrow>
      canonicalQuery ps = canonicalQuery ps'
      \<and> sign L c (canonicalQuery ps) = sign L c (canonicalQuery ps')
      \<and> fullURLOf L c endpoint ps = fullURLOf L c endpoint ps')
   \<and> (distinct (map fst ps) \<and> (k, v) \<in> set ps \<and> v' \<noteq> v \<longrightarrow>
        canonicalQuery (AList.update k v' ps) \<noteq> canonicalQuery ps)
   \<and> fullURLOf L c endpoint ps =
        baseURL c @ endpoint @ ''?'' @ canonicalQuery (withTimestamp L ps)
          @ ''&signature='' @ sign L c (canonicalQuery (withTimestamp L ps))
   \<and> map_of (withTimestamp L ps) ''timestamp'' = Some (itoa (Now L))
   \<and> set (sign L c q) \<subseteq> set ''0123456789abcdef''"
proof (intro conjI impI)
  assume a: "distinct (map fst ps) \<and> distinct (map fst ps') \<and> map_of ps = map_of ps'"
  then show e: "canonicalQuery ps = canonicalQuery ps'"
    by (simp add: canonicalQuery_order_independent)
  then show "sign L c (canonicalQuery ps) = sign L c (canonicalQuery ps')" by simp
  have "canonicalQuery (withTimestamp L ps) = canonicalQuery (withTimestamp L ps')"
    unfolding withTimestamp_def Let_def
    by (rule canonicalQuery_order_independent) (simp_all add: a distinct_update update_conv')
  then show "fullURLOf L c endpoint ps = fullURLOf L c endpoint ps'"
    by (simp add: fullURLOf_def Let_def)
next
  assume "distinct (map fst ps) \<and> (k, v) \<in> set ps \<and> v' \<noteq> v"
  then show "canonicalQuery (AList.update k v' ps) \<noteq> canonicalQuery ps"
    using canonicalQuery_value_sensitive by blast
next
  show "fullURLOf L c endpoint ps =
        baseURL c @ endpoint @ ''?'' @ canonicalQuery (withTimestamp L ps)
          @ ''&signature='' @ sign L c (canonicalQuery (withTimestamp L ps))"
    by (simp add: fullURLOf_def Let_def)
  show "map_of (withTimestamp L ps) ''timestamp'' = Some (itoa (Now L))"
    by (simp add: withTimestamp_def Let_def update_conv')
  show "set (sign L c q) \<subseteq> set ''0123456789abcdef''"
    unfolding sign_def using EncodeToString_lowercase_hex by blast
qed

theorem signing_deterministic_witness:
  "distinct (map fst exampleParams) \<and> distinct (map fst (rev exampleParams))
   \<and> map_of exampleParams = map_of (rev exampleParams)
   \<and> canonicalQuery exampleParams = canonicalQuery (rev exampleParams)
   \<and> sign exampleLib exampleClient (canonicalQuery exampleParams) =
       sign exampleLib exampleClient (canonicalQuery (rev exampleParams))
   \<and> canonicalQuery exampleParams = ''symbol=BTC-USDT&timestamp=17''
   \<and> (''symbol'', ''BTC-USDT'') \<in> set exampleParams \<and> ''ETH-USDT'' \<noteq> ''BTC-USDT''
   \<and> canonicalQuery (AList.update ''symbol'' ''ETH-USDT'' exampleParams) \<noteq> canonicalQuery exampleParams"
proof -
  have d: "distinct (map fst exampleParams)" "distinct (map fst (rev exampleParams))"
    by (simp_all add: exampleParams_def)
  have m: "map_of exampleParams = map_of (rev exampleParams)"
    by (rule ext) (simp add: exampleParams_def)
  have i: "(''symbol'', ''BTC-USDT'') \<in> set exampleParams" "''ETH-USDT'' \<noteq> ''BTC-USDT''"
    by (simp_all add: exampleParams_def)
  have q: "canonicalQuery exampleParams = ''symbol=BTC-USDT&timestamp=17''"
    by (simp add: canonicalQuery_def Encode_def Set_def writePair_def QueryEscape_def
        escapeByte_def shouldEscape_def upperhex_def exampleParams_def)
  note t = signing_deterministic [where ps = exampleParams and ps' = "rev exampleParams"
      and L = exampleLib and c = exampleClient and k = "''symbol''" and v = "''BTC-USDT''"
      and v' = "''ETH-USDT''"]
  have a: "canonicalQuery exampleParams = canonicalQuery (rev exampleParams)
      \<and> sign exampleLib exampleClient (canonicalQuery exampleParams) =
          sign exampleLib exampleClient (canonicalQuery (rev exampleParams))"
    using t [THEN conjunct1, THEN mp] d m by simp
  have b: "canonicalQuery (AList.update ''symbol'' ''ETH-USDT'' exampleParams) \<noteq> canonicalQuery exampleParams"
    using t [THEN conjunct2, THEN conjunct1, THEN mp] d i by blast
  show ?thesis using d m a q i b by simp
qed

end
